theory Spec2Isabelle
  imports Main "HOL-Library.Sublist" "HOL-Library.AList"
begin

section \<open>JavaScript values used by the program\<close>

text \<open>
  A JavaScript string is a sequence of UTF-16 code units: \<open>length\<close>, \<open>includes\<close> and
  \<open>trim\<close> all work on code units. The program's literals contain letters outside
  ASCII and the signs U+2705, U+274C and U+26A0 U+FE0F, so a string is modelled as the list of its code
  units. \<open>S\<close> embeds an ASCII literal; other code units are written as numbers
  (\<open>0xE1\<close> is a-acute, \<open>0xE7\<close> c-cedilla, \<open>0xE3\<close> a-tilde, and so on).
\<close>

type_synonym jsstring = "nat list"

definition S :: "string \<Rightarrow> jsstring" where
  "S s = map of_char s"

text \<open>\<open>s.includes(t)\<close>: \<open>t\<close> occurs in \<open>s\<close> as a contiguous run of code units.\<close>

fun js_includes :: "jsstring \<Rightarrow> jsstring \<Rightarrow> bool" where
  "js_includes [] t = (t = [])"
| "js_includes (c # s) t = (prefix t (c # s) \<or> js_includes s t)"

text \<open>\<open>xs.join(sep)\<close>.\<close>

fun js_join :: "jsstring \<Rightarrow> jsstring list \<Rightarrow> jsstring" where
  "js_join sep [] = []"
| "js_join sep [x] = x"
| "js_join sep (x # y # ys) = x @ sep @ js_join sep (y # ys)"

text \<open>
  \<open>s.trim()\<close> removes white space and line terminators (ECMAScript's WhiteSpace and
  LineTerminator productions) from both ends.
\<close>

definition is_js_space :: "nat \<Rightarrow> bool" where
  "is_js_space c =
     (c \<in> set [0x9, 0xA, 0xB, 0xC, 0xD, 0x20, 0xA0, 0x1680, 0x2028, 0x2029, 0x202F, 0x205F,
               0x3000, 0xFEFF]
      \<or> (0x2000 \<le> c \<and> c \<le> 0x200A))"

definition js_trim :: "jsstring \<Rightarrow> jsstring" where
  "js_trim s = rev (dropWhile is_js_space (rev (dropWhile is_js_space s)))"

text \<open>
  \<open>s.toLowerCase()\<close>, on the Basic Latin and Latin-1 letters (the alphabet of the
  planner's keywords); other code units are left as they are.
\<close>

definition js_toLowerCase :: "jsstring \<Rightarrow> jsstring" where
  "js_toLowerCase s =
     map (\<lambda>c. if 0x41 \<le> c \<and> c \<le> 0x5A then c + 0x20
              else if 0xC0 \<le> c \<and> c \<le> 0xDE \<and> c \<noteq> 0xD7 then c + 0x20
              else c) s"

text \<open>A thrown value: the class of the error object and its message.\<close>

datatype error = Error jsstring | TypeError jsstring

fun error_name :: "error \<Rightarrow> jsstring" where
  "error_name (Error m) = S ''Error''"
| "error_name (TypeError m) = S ''TypeError''"

fun error_message :: "error \<Rightarrow> jsstring" where
  "error_message (Error m) = m"
| "error_message (TypeError m) = m"

section \<open>The planner (orchestrator.js)\<close>

text \<open>
  An item of \<open>step.requirements\<close>. The planner writes plain strings; the validator reads
  the properties \<open>type\<close>, \<open>value\<close> and \<open>name\<close>, which are \<open>undefined\<close> on a string.
\<close>

datatype requirement =
    ReqText jsstring
  | ReqItem (req_type: jsstring) (req_value: jsstring) (req_name: jsstring)

record step =
  step_id :: nat
  step_title :: jsstring
  step_description :: jsstring
  step_type :: jsstring
  step_language :: jsstring
  step_estimatedTime :: jsstring
  step_requirements :: "requirement list"
  step_deliverables :: "jsstring list"
  step_status :: jsstring
  step_completedAt :: "jsstring option"

text \<open>The result of \<open>analyzeTaskInContext\<close>, as far as the planner reads it.\<close>

record analysis =
  taskType :: jsstring
  requiredSkills :: "jsstring list"
  suggestedApproach :: jsstring
  prerequisites :: "requirement list"

text \<open>\<open>this.codebaseAnalysis.languages[0] || 'JavaScript'\<close>: an empty string is falsy too.\<close>

definition primary_language :: "jsstring list \<Rightarrow> jsstring" where
  "primary_language languages =
     (case languages of
        [] \<Rightarrow> S ''JavaScript''
      | l # _ \<Rightarrow> if l = [] then S ''JavaScript'' else l)"

definition createCreationSteps :: "jsstring \<Rightarrow> step list" where
  "createCreationSteps language =
     [\<lparr> step_id = 2,
        step_title = S ''Implementa'' @ [0xE7, 0xE3] @ S ''o'',
        step_description = S ''Criar/implementar funcionalidade em '' @ language,
        step_type = S ''implementation'',
        step_language = language,
        step_estimatedTime = S ''15-30 min'',
        step_requirements = [ReqText (S ''Plano aprovado'')],
        step_deliverables = [S ''C'' @ [0xF3] @ S ''digo implementado''],
        step_status = S ''pending'',
        step_completedAt = None \<rparr>]"

definition createBugfixSteps :: "jsstring \<Rightarrow> step list" where
  "createBugfixSteps language =
     [\<lparr> step_id = 2,
        step_title = S ''Reprodu'' @ [0xE7, 0xE3] @ S ''o do Bug'',
        step_description = S ''Reproduzir e identificar causa raiz'',
        step_type = S ''investigation'',
        step_language = language,
        step_estimatedTime = S ''10-20 min'',
        step_requirements = [ReqText (S ''Descri'' @ [0xE7, 0xE3] @ S ''o do problema'')],
        step_deliverables = [S ''Causa raiz identificada''],
        step_status = S ''pending'',
        step_completedAt = None \<rparr>,
      \<lparr> step_id = 3,
        step_title = S ''Corre'' @ [0xE7, 0xE3] @ S ''o'',
        step_description = S ''Aplicar corre'' @ [0xE7, 0xE3] @ S ''o m'' @ [0xED]
                             @ S ''nima necess'' @ [0xE1] @ S ''ria'',
        step_type = S ''fix'',
        step_language = language,
        step_estimatedTime = S ''5-15 min'',
        step_requirements = [ReqText (S ''Causa raiz conhecida'')],
        step_deliverables = [S ''Bug corrigido''],
        step_status = S ''pending'',
        step_completedAt = None \<rparr>]"

definition createImprovementSteps :: "jsstring \<Rightarrow> step list" where
  "createImprovementSteps language =
     [\<lparr> step_id = 2,
        step_title = S ''Refatora'' @ [0xE7, 0xE3] @ S ''o'',
        step_description = S ''Melhorar c'' @ [0xF3] @ S ''digo mantendo funcionalidade'',
        step_type = S ''refactor'',
        step_language = language,
        step_estimatedTime = S ''20-40 min'',
        step_requirements = [ReqText (S ''Testes existentes'')],
        step_deliverables = [S ''C'' @ [0xF3] @ S ''digo melhorado''],
        step_status = S ''pending'',
        step_completedAt = None \<rparr>]"

definition createTestingSteps :: "jsstring \<Rightarrow> step list" where
  "createTestingSteps language =
     [\<lparr> step_id = 2,
        step_title = S ''Implementa'' @ [0xE7, 0xE3] @ S ''o de Testes'',
        step_description = S ''Criar testes em '' @ language,
        step_type = S ''testing'',
        step_language = language,
        step_estimatedTime = S ''15-30 min'',
        step_requirements = [ReqText (S ''C'' @ [0xF3] @ S ''digo a ser testado'')],
        step_deliverables = [S ''Testes implementados''],
        step_status = S ''pending'',
        step_completedAt = None \<rparr>]"

definition createDocumentationSteps :: "jsstring \<Rightarrow> step list" where
  "createDocumentationSteps language =
     [\<lparr> step_id = 2,
        step_title = S ''Escrita de Documenta'' @ [0xE7, 0xE3] @ S ''o'',
        step_description = S ''Criar/atualizar documenta'' @ [0xE7, 0xE3] @ S ''o'',
        step_type = S ''documentation'',
        step_language = S ''Markdown'',
        step_estimatedTime = S ''10-20 min'',
        step_requirements = [ReqText (S ''Funcionalidade implementada'')],
        step_deliverables = [S ''Documenta'' @ [0xE7, 0xE3] @ S ''o atualizada''],
        step_status = S ''pending'',
        step_completedAt = None \<rparr>]"

definition createGeneralSteps :: "jsstring \<Rightarrow> step list" where
  "createGeneralSteps language =
     [\<lparr> step_id = 2,
        step_title = S ''Implementa'' @ [0xE7, 0xE3] @ S ''o Geral'',
        step_description = S ''Executar tarefa solicitada'',
        step_type = S ''general'',
        step_language = language,
        step_estimatedTime = S ''15-30 min'',
        step_requirements = [ReqText (S ''Requisitos definidos'')],
        step_deliverables = [S ''Tarefa executada''],
        step_status = S ''pending'',
        step_completedAt = None \<rparr>]"

text \<open>
  \<open>createTaskSteps\<close>: the analysis step, the block of the task type (the \<open>switch\<close>'s
  \<open>default\<close> is the general block) and the validation step, whose id is the length of
  the list so far plus one.
\<close>

definition middle_steps :: "jsstring \<Rightarrow> jsstring \<Rightarrow> step list" where
  "middle_steps tt language =
     (if tt = S ''creation'' then createCreationSteps language
      else if tt = S ''bugfix'' then createBugfixSteps language
      else if tt = S ''improvement'' then createImprovementSteps language
      else if tt = S ''testing'' then createTestingSteps language
      else if tt = S ''documentation'' then createDocumentationSteps language
      else createGeneralSteps language)"

definition createTaskSteps :: "jsstring list \<Rightarrow> analysis \<Rightarrow> step list" where
  "createTaskSteps languages a =
     (let language = primary_language languages;
          steps1 =
            [\<lparr> step_id = 1,
               step_title = S ''An'' @ [0xE1] @ S ''lise e Prepara'' @ [0xE7, 0xE3] @ S ''o'',
               step_description =
                 S ''Analisar requisitos e preparar ambiente para '' @ taskType a,
               step_type = S ''analysis'',
               step_language = language,
               step_estimatedTime = S ''5-10 min'',
               step_requirements = prerequisites a,
               step_deliverables =
                 [S ''Plano de execu'' @ [0xE7, 0xE3] @ S ''o'', S ''Arquivos identificados''],
               step_status = S ''pending'',
               step_completedAt = None \<rparr>];
          steps2 = steps1 @ middle_steps (taskType a) language
      in steps2 @
           [\<lparr> step_id = length steps2 + 1,
              step_title = S ''Valida'' @ [0xE7, 0xE3] @ S ''o e Finaliza'' @ [0xE7, 0xE3] @ S ''o'',
              step_description =
                S ''Validar resultado final e documentar mudan'' @ [0xE7] @ S ''as'',
              step_type = S ''validation'',
              step_language = language,
              step_estimatedTime = S ''5-10 min'',
              step_requirements = [ReqText (S ''Todos os testes passando'')],
              step_deliverables =
                [S ''Documenta'' @ [0xE7, 0xE3] @ S ''o atualizada'', S ''Testes validados''],
              step_status = S ''pending'',
              step_completedAt = None \<rparr>])"

subsection \<open>The task, the description's validator and the orchestrator's state\<close>

record task =
  task_id :: jsstring
  task_description :: jsstring
  task_priority :: jsstring
  task_autoFix :: bool
  task_createdAt :: jsstring
  task_status :: jsstring

text \<open>\<open>String(n)\<close> for a natural number: its decimal digits.\<close>

fun js_number_string :: "nat \<Rightarrow> jsstring" where
  "js_number_string n =
     (if n < 10 then [0x30 + n] else js_number_string (n div 10) @ [0x30 + n mod 10])"

declare js_number_string.simps [simp del]

text \<open>
  The \<open>validate\<close> function that \<open>requestTaskFromUser\<close> gives to the description
  question: \<open>input => input.trim().length > 10 || 'Por favor, ...'\<close>. It returns \<open>true\<close>
  (\<open>Accepted\<close>) or the message (\<open>Refused\<close>).
\<close>

datatype prompt_validation = Accepted | Refused jsstring

definition description_validate :: "jsstring \<Rightarrow> prompt_validation" where
  "description_validate input =
     (if length (js_trim input) > 10 then Accepted
      else Refused (S ''Por favor, descreva a tarefa com mais detalhes''))"

record orchestrator =
  currentTask :: "task option"
  taskSteps :: "step list"
  currentStepIndex :: nat
  maxRetries :: int
  languages :: "jsstring list"
  frameworks :: "jsstring list"

text \<open>
  The constructor: \<open>parseInt(process.env.MAX_RETRIES) || 3\<close>, where \<open>None\<close> is \<open>NaN\<close>
  (the variable is unset or not a number) and \<open>0\<close> is falsy as well.
\<close>

definition new_orchestrator :: "int option \<Rightarrow> orchestrator" where
  "new_orchestrator env_max_retries =
     \<lparr> currentTask = None,
       taskSteps = [],
       currentStepIndex = 0,
       maxRetries = (case env_max_retries of None \<Rightarrow> 3 | Some n \<Rightarrow> if n = 0 then 3 else n),
       languages = [],
       frameworks = [] \<rparr>"

subsection \<open>orchestrateTask\<close>

text \<open>
  The class \<open>MCPOrchestrator\<close> declares neither \<open>identifyTaskType\<close> nor
  \<open>validateTaskSteps\<close> (and has no superclass), so calling either one throws a
  \<open>TypeError\<close>, as calling any undefined property does.
\<close>

definition missing_method :: "string \<Rightarrow> error" where
  "missing_method name = TypeError (S ''this.'' @ S name @ S '' is not a function'')"

definition identifyTaskType :: "jsstring \<Rightarrow> error + jsstring" where
  "identifyTaskType description = Inl (missing_method ''identifyTaskType'')"

definition validateTaskSteps :: "orchestrator \<Rightarrow> error + unit" where
  "validateTaskSteps orch = Inl (missing_method ''validateTaskSteps'')"

text \<open>The keyword chain of \<open>analyzeTaskInContext\<close>, on the lower-cased description.\<close>

definition taskType_of_keywords :: "jsstring \<Rightarrow> jsstring" where
  "taskType_of_keywords kw =
     (if js_includes kw (S ''criar'') \<or> js_includes kw (S ''adicionar'')
         \<or> js_includes kw (S ''implementar'') then S ''creation''
      else if js_includes kw (S ''corrigir'') \<or> js_includes kw (S ''bug'')
         \<or> js_includes kw (S ''erro'') then S ''bugfix''
      else if js_includes kw (S ''melhorar'') \<or> js_includes kw (S ''otimizar'')
         \<or> js_includes kw (S ''refatorar'') then S ''improvement''
      else if js_includes kw (S ''testar'') \<or> js_includes kw (S ''teste'') then S ''testing''
      else if js_includes kw (S ''documentar'')
         \<or> js_includes kw (S ''documenta'' @ [0xE7, 0xE3] @ S ''o'') then S ''documentation''
      else S ''general'')"

text \<open>\<open>approaches[taskType] || approaches.general\<close>; \<open>languages[0]\<close> may be \<open>undefined\<close>.\<close>

definition suggestApproach :: "jsstring \<Rightarrow> jsstring list \<Rightarrow> jsstring" where
  "suggestApproach tt langs =
     (if tt = S ''creation'' then
        S ''Criar novos arquivos seguindo padr'' @ [0xF5] @ S ''es do projeto ''
          @ (case langs of [] \<Rightarrow> S ''undefined'' | l # _ \<Rightarrow> l)
      else if tt = S ''bugfix'' then
        S ''Identificar causa raiz e aplicar corre'' @ [0xE7, 0xE3] @ S ''o m'' @ [0xED]
          @ S ''nima necess'' @ [0xE1] @ S ''ria''
      else if tt = S ''improvement'' then
        S ''Refatorar c'' @ [0xF3] @ S ''digo mantendo funcionalidade existente''
      else if tt = S ''testing'' then
        S ''Implementar testes cobrindo cen'' @ [0xE1] @ S ''rios principais''
      else if tt = S ''documentation'' then
        S ''Documentar seguindo padr'' @ [0xF5] @ S ''es do projeto''
      else
        S ''Analisar requisitos e implementar solu'' @ [0xE7, 0xE3] @ S ''o apropriada'')"

text \<open>
  \<open>analyzeTaskInContext\<close>: the object literal calls \<open>this.identifyTaskType\<close> first;
  the keyword chain then overwrites \<open>taskType\<close>.
\<close>

definition analyzeTaskInContext :: "orchestrator \<Rightarrow> task \<Rightarrow> error + analysis" where
  "analyzeTaskInContext orch t =
     (case identifyTaskType (task_description t) of
        Inl e \<Rightarrow> Inl e
      | Inr tt0 \<Rightarrow>
          (let tt = taskType_of_keywords (js_toLowerCase (task_description t))
           in Inr \<lparr> taskType = tt,
                    requiredSkills = languages orch @ frameworks orch,
                    suggestedApproach = suggestApproach tt (languages orch),
                    prerequisites = [] \<rparr>))"

text \<open>
  \<open>orchestrateTask\<close> returns the error it rethrows (if any) and the orchestrator as the
  call leaves it: \<open>this.taskSteps\<close> is assigned before \<open>validateTaskSteps\<close> is called.
\<close>

definition orchestrateTask :: "orchestrator \<Rightarrow> task \<Rightarrow> error option \<times> orchestrator" where
  "orchestrateTask orch t =
     (case analyzeTaskInContext orch t of
        Inl e \<Rightarrow> (Some e, orch)
      | Inr a \<Rightarrow>
          (let orch' = orch\<lparr>taskSteps := createTaskSteps (languages orch) a\<rparr>
           in case validateTaskSteps orch' of
                Inl e \<Rightarrow> (Some e, orch')
              | Inr u \<Rightarrow> (None, orch')))"

section \<open>The records passed between the stages\<close>

text \<open>
  A property of an object that the program tests against \<open>undefined\<close> and \<open>null\<close>:
  the key may be absent, or present with the value \<open>undefined\<close>, \<open>null\<close> or a value.
  \<open>x !== undefined\<close> holds of \<open>Null\<close> and of \<open>Present\<close>; only \<open>Object.keys\<close> tells
  \<open>Absent\<close> from \<open>Undefined\<close>.
\<close>

datatype 'a field = Absent | Undefined | Null | Present 'a

definition is_defined :: "'a field \<Rightarrow> bool" where
  "is_defined f = (case f of Absent \<Rightarrow> False | Undefined \<Rightarrow> False | Null \<Rightarrow> True | Present x \<Rightarrow> True)"

definition has_key :: "'a field \<Rightarrow> bool" where
  "has_key f = (case f of Absent \<Rightarrow> False | Undefined \<Rightarrow> True | Null \<Rightarrow> True | Present x \<Rightarrow> True)"

definition is_present :: "'a field \<Rightarrow> bool" where
  "is_present f = (case f of Absent \<Rightarrow> False | Undefined \<Rightarrow> False | Null \<Rightarrow> False | Present x \<Rightarrow> True)"

text \<open>A value the program only compares with \<open>undefined\<close>.\<close>

datatype presence = IsUndefined | IsDefined

record dependencyCheck =
  missing :: "jsstring list field"

record errorAnalysis =
  stackTrace :: "jsstring field"
  errorMessage :: "jsstring field"

text \<open>
  The \<open>deliverables\<close> bag of an execution record: the keys the tester and the validator
  read, and the values of any further keys (\<open>d_other\<close>).
\<close>

record deliverables =
  d_requirements :: "jsstring list field"
  d_dependencyCheck :: "dependencyCheck field"
  d_fileStructure :: "jsstring list field"
  d_technologies :: "jsstring list field"
  d_dependencies :: "jsstring list field"
  d_errorAnalysis :: "errorAnalysis field"
  d_reproduction :: "unit field"
  d_rootCause :: "unit field"
  d_proposedSolution :: "unit field"
  d_other :: "unit field list"

record verificationResult =
  errorResolved :: "bool option"
  remainingErrors :: "jsstring list option"

text \<open>
  The execution record, as the tester and the validator read it. A flag compared with
  \<open>=== true\<close> or \<open>!== false\<close> is a \<open>bool option\<close> and a number an \<open>int option\<close>, \<open>None\<close>
  being \<open>undefined\<close>.
\<close>

record executionResult =
  er_deliverables :: "deliverables option"
  filesCreated :: "jsstring list"
  filesModified :: "jsstring list"
  fixApplied :: "bool option"
  originalProblemSolved :: "bool option"
  verificationResult :: "verificationResult option"
  codeQualityImproved :: "bool option"
  fileStructureOptimized :: "bool option"
  testCasesCreated :: "int option"
  testReport :: presence
  er_testsPassed :: "bool option"
  er_coverage :: "int option"
  documentationUpdated :: "bool option"
  readmeUpdated :: "bool option"
  codeCommentsUpdated :: "bool option"
  examplesIncluded :: "bool option"
  documentationFiles :: "jsstring list option"
  validationPerformed :: "bool option"
  criteriasMet :: "bool option"
  validationReport :: presence
  completed :: "bool option"
  objectivesAchieved :: "bool option"
  executionTime :: "int option"
  memoryUsage :: "int option"
  logs :: "jsstring list option"
  backupCreated :: "bool option"
  functionsImplemented :: "jsstring list option"
  testsCreated :: "jsstring list option"
  dependenciesInstalled :: "jsstring list option"

text \<open>
  The check record that \<open>MCPTester.test\<close> builds. \<open>testsPassed\<close> is read by the validator
  and never written by the tester; \<open>coverage\<close> starts as \<open>null\<close> (\<open>None\<close>).
\<close>

record testResult =
  tr_stepId :: nat
  testType :: jsstring
  startTime :: jsstring
  hasErrors :: bool
  errors :: "jsstring list"
  warnings :: "jsstring list"
  passed :: "jsstring list"
  failed :: "jsstring list"
  coverage :: "int option"
  performance_executionTime :: "int option"
  tr_recommendations :: "jsstring list"
  canProceed :: bool
  endTime :: "jsstring option"
  testsPassed :: "bool option"

text \<open>
  A step as the tester and the validator read it: the planner's fields and the optional
  ones (\<open>originalError\<close> is an object with a \<open>message\<close>), which the planner never sets.
\<close>

record xstep = step +
  originalError :: "jsstring option"
  maxExecutionTime :: "int option"
  minCoverage :: "int option"
  updateReadme :: bool

definition planned_step :: "step \<Rightarrow> xstep" where
  "planned_step s =
     step.extend s \<lparr> originalError = None, maxExecutionTime = None, minCoverage = None,
                      updateReadme = False \<rparr>"

datatype metric = MNumber "int option" | MText jsstring

record validationResult =
  vr_stepId :: nat
  stepTitle :: jsstring
  timestamp :: jsstring
  approved :: bool
  confidence :: jsstring
  reasons :: "jsstring list"
  recommendations :: "jsstring list"
  nextStepApproved :: bool
  finalApproval :: bool
  qualityScore :: nat
  completeness :: nat
  metrics :: "(jsstring \<times> metric) list"

text \<open>
  What the validator reads of the outside world: the files (a path's content, if it
  exists; \<open>stat.size\<close> is zero exactly for an empty content) and whether
  \<open>npm list <dep>\<close> succeeds.
\<close>

record environment =
  files :: "jsstring \<rightharpoonup> jsstring"
  npm_list :: "jsstring \<Rightarrow> bool"

text \<open>\<open>path.basename\<close> (POSIX): trailing slashes are ignored.\<close>

definition basename :: "jsstring \<Rightarrow> jsstring" where
  "basename p =
     rev (takeWhile (\<lambda>c. c \<noteq> 0x2F) (dropWhile (\<lambda>c. c = 0x2F) (rev p)))"

section \<open>The validation gate (mcp-4-validator.js)\<close>

text \<open>
  A criterion of a rubric. Its \<open>check\<close> is called once, so the model holds what the
  call gives: \<open>Inr b\<close>, the truthiness of the value returned, or \<open>Inl m\<close> when it throws
  an error with message \<open>m\<close>.
\<close>

record criterion =
  c_name :: jsstring
  c_check :: "jsstring + bool"
  c_weight :: nat
  c_critical :: bool

definition pass_mark :: jsstring where "pass_mark = ([0x2705] @ S '' '')"
definition fail_mark :: jsstring where "fail_mark = ([0x274C] @ S '' '')"
definition warn_mark :: jsstring where "warn_mark = ([0x26A0, 0xFE0F] @ S '' '')"

text \<open>
  \<open>Math.round((a / t) * 100)\<close> for natural numbers \<open>a\<close> and \<open>t > 0\<close>: the quotient rounded
  half up. (The rubrics' weights total 100, where the floating-point computation is
  exact.)
\<close>

definition js_round_percent :: "nat \<Rightarrow> nat \<Rightarrow> nat" where
  "js_round_percent a t = (200 * a + t) div (2 * t)"

text \<open>The local variables of \<open>evaluateCriteria\<close>'s loop.\<close>

record tally =
  totalWeight :: nat
  achievedWeight :: nat
  criticalFailures :: nat

text \<open>
  One turn of the loop: the weight is added to the total after the check has returned,
  so a check that throws adds nothing to it.
\<close>

definition criterion_step :: "criterion \<Rightarrow> tally \<times> jsstring list \<Rightarrow> tally \<times> jsstring list" where
  "criterion_step c acc =
     (case acc of (t, rs) \<Rightarrow>
        (case c_check c of
           Inr p \<Rightarrow>
             (let t1 = t\<lparr>totalWeight := totalWeight t + c_weight c\<rparr>
              in if p then
                   (t1\<lparr>achievedWeight := achievedWeight t1 + c_weight c\<rparr>,
                    rs @ [pass_mark @ c_name c])
                 else
                   (if c_critical c then t1\<lparr>criticalFailures := criticalFailures t1 + 1\<rparr> else t1,
                    rs @ [fail_mark @ c_name c]))
         | Inl m \<Rightarrow>
             (if c_critical c then t\<lparr>criticalFailures := criticalFailures t + 1\<rparr> else t,
              rs @ [warn_mark @ (S ''Erro ao verificar '') @ c_name c @ (S '': '') @ m])))"

fun criteria_loop :: "criterion list \<Rightarrow> tally \<times> jsstring list \<Rightarrow> tally \<times> jsstring list" where
  "criteria_loop [] acc = acc"
| "criteria_loop (c # cs) acc = criteria_loop cs (criterion_step c acc)"

definition evaluateCriteria :: "criterion list \<Rightarrow> validationResult \<Rightarrow> validationResult" where
  "evaluateCriteria criteria vr =
     (case criteria_loop criteria
             (\<lparr>totalWeight = 0, achievedWeight = 0, criticalFailures = 0\<rparr>, reasons vr) of
        (t, rs) \<Rightarrow>
          (let score = (if totalWeight t > 0
                        then js_round_percent (achievedWeight t) (totalWeight t) else 0);
               satisfied = filter (\<lambda>c. list_ex (\<lambda>r. js_includes r (pass_mark @ c_name c)) rs)
                             criteria;
               compl = (if length criteria > 0
                        then js_round_percent (length satisfied) (length criteria) else 0);
               vr1 = vr\<lparr>reasons := rs, qualityScore := score, completeness := compl\<rparr>
           in if criticalFailures t > 0 then
                vr1\<lparr>confidence := (S ''low''),
                    recommendations := recommendations vr1 @
                      [(S ''Corrigir '') @ js_number_string (criticalFailures t)
                         @ (S '' falha(s) cr'' @ [0xED] @ S ''tica(s)'')]\<rparr>
              else if score \<ge> 80 then vr1\<lparr>confidence := (S ''high'')\<rparr>
              else if score \<ge> 60 then vr1\<lparr>confidence := (S ''medium'')\<rparr>
              else vr1\<lparr>confidence := (S ''low'')\<rparr>))"

subsection \<open>The rubric of each kind of step\<close>

text \<open>\<open>executionResult.deliverables?.k !== undefined\<close>.\<close>

definition deliverable_defined ::
  "executionResult \<Rightarrow> (deliverables \<Rightarrow> 'a field) \<Rightarrow> bool" where
  "deliverable_defined e k =
     (case er_deliverables e of None \<Rightarrow> False | Some d \<Rightarrow> is_defined (k d))"

definition analysis_criteria :: "executionResult \<Rightarrow> testResult \<Rightarrow> criterion list" where
  "analysis_criteria e t =
     [\<lparr> c_name = (S ''Requisitos analisados''),
        c_check = Inr (deliverable_defined e d_requirements), c_weight = 30, c_critical = True \<rparr>,
      \<lparr> c_name = (S ''Depend'' @ [0xEA] @ S ''ncias verificadas''),
        c_check = Inr (deliverable_defined e d_dependencyCheck), c_weight = 25, c_critical = True \<rparr>,
      \<lparr> c_name = (S ''Estrutura preparada''),
        c_check = Inr (deliverable_defined e d_fileStructure), c_weight = 20, c_critical = False \<rparr>,
      \<lparr> c_name = (S ''Execu'' @ [0xE7, 0xE3] @ S ''o sem erros''),
        c_check = Inr (length (errors t) = 0), c_weight = 25, c_critical = True \<rparr>]"

definition implementation_criteria :: "executionResult \<Rightarrow> testResult \<Rightarrow> criterion list" where
  "implementation_criteria e t =
     [\<lparr> c_name = (S ''Arquivos criados/modificados''),
        c_check = Inr (length (filesCreated e) + length (filesModified e) > 0),
        c_weight = 25, c_critical = True \<rparr>,
      \<lparr> c_name = (S ''Sintaxe v'' @ [0xE1] @ S ''lida''),
        c_check = Inr (\<not> list_ex (\<lambda>x. js_includes x (S ''syntax'') \<or> js_includes x (S ''Syntax'')) (errors t)),
        c_weight = 30, c_critical = True \<rparr>,
      \<lparr> c_name = (S ''Funcionalidade b'' @ [0xE1] @ S ''sica''),
        c_check = Inr (list_ex (\<lambda>p. js_includes p (S ''funcionalidade'') \<or> js_includes p (S ''b'' @ [0xE1] @ S ''sica''))
                         (passed t)),
        c_weight = 25, c_critical = False \<rparr>,
      \<lparr> c_name = (S ''Sem regress'' @ [0xF5] @ S ''es''),
        c_check = Inr (\<not> list_ex (\<lambda>w. js_includes w (S ''regress'' @ [0xE3] @ S ''o'')) (warnings t)),
        c_weight = 20, c_critical = False \<rparr>]"

definition investigation_criteria :: "executionResult \<Rightarrow> testResult \<Rightarrow> criterion list" where
  "investigation_criteria e t =
     [\<lparr> c_name = (S ''An'' @ [0xE1] @ S ''lise de erros completa''),
        c_check = Inr (deliverable_defined e d_errorAnalysis), c_weight = 30, c_critical = True \<rparr>,
      \<lparr> c_name = (S ''Problema reproduzido''),
        c_check = Inr (deliverable_defined e d_reproduction), c_weight = 25, c_critical = True \<rparr>,
      \<lparr> c_name = (S ''Causa raiz identificada''),
        c_check = Inr (deliverable_defined e d_rootCause), c_weight = 25, c_critical = True \<rparr>,
      \<lparr> c_name = (S ''Solu'' @ [0xE7, 0xE3] @ S ''o proposta''),
        c_check = Inr (deliverable_defined e d_proposedSolution), c_weight = 20,
        c_critical = False \<rparr>]"

definition fix_criteria :: "executionResult \<Rightarrow> testResult \<Rightarrow> criterion list" where
  "fix_criteria e t =
     [\<lparr> c_name = (S ''Corre'' @ [0xE7, 0xE3] @ S ''o aplicada''),
        c_check = Inr (fixApplied e = Some True), c_weight = 40, c_critical = True \<rparr>,
      \<lparr> c_name = (S ''Testes passando''),
        c_check = Inr (length (failed t) = 0), c_weight = 30, c_critical = True \<rparr>,
      \<lparr> c_name = (S ''Problema original resolvido''),
        c_check = Inr (originalProblemSolved e = Some True), c_weight = 20, c_critical = True \<rparr>,
      \<lparr> c_name = (S ''Sem efeitos colaterais''),
        c_check = Inr (\<not> list_ex (\<lambda>w. js_includes w (S ''regress'' @ [0xE3] @ S ''o'')) (warnings t)),
        c_weight = 10, c_critical = False \<rparr>]"

text \<open>
  In the refactor rubric, \<open>testResult.performance.executionTime\<close> is tested for
  truthiness first (zero is falsy) and \<open>step.maxExecutionTime || 5000\<close> replaces a
  missing or zero ceiling.
\<close>

definition refactor_criteria :: "xstep \<Rightarrow> executionResult \<Rightarrow> testResult \<Rightarrow> criterion list" where
  "refactor_criteria s e t =
     [\<lparr> c_name = (S ''Funcionalidade preservada''),
        c_check = Inr (list_ex (\<lambda>p. js_includes p (S ''regress'' @ [0xE3] @ S ''o'') \<and> js_includes p (S ''passaram''))
                         (passed t)),
        c_weight = 40, c_critical = True \<rparr>,
      \<lparr> c_name = (S ''C'' @ [0xF3] @ S ''digo melhorado''),
        c_check = Inr (codeQualityImproved e = Some True), c_weight = 25, c_critical = False \<rparr>,
      \<lparr> c_name = (S ''Performance mantida/melhorada''),
        c_check = Inr (case performance_executionTime t of
                         None \<Rightarrow> True
                       | Some ms \<Rightarrow>
                           if ms = 0 then True
                           else ms \<le> (case maxExecutionTime s of
                                        None \<Rightarrow> 5000
                                      | Some m \<Rightarrow> if m = 0 then 5000 else m)),
        c_weight = 20, c_critical = False \<rparr>,
      \<lparr> c_name = (S ''Estrutura de arquivos otimizada''),
        c_check = Inr (fileStructureOptimized e \<noteq> Some False), c_weight = 15,
        c_critical = False \<rparr>]"

text \<open>
  In the testing rubric, \<open>testResult.coverage >= minCoverage\<close> converts a \<open>null\<close> coverage
  to zero, and \<open>undefined > 0\<close> is false.
\<close>

definition testing_criteria :: "xstep \<Rightarrow> executionResult \<Rightarrow> testResult \<Rightarrow> criterion list" where
  "testing_criteria s e t =
     [\<lparr> c_name = (S ''Testes executados com sucesso''),
        c_check = Inr (testsPassed t = Some True), c_weight = 40, c_critical = True \<rparr>,
      \<lparr> c_name = (S ''Cobertura adequada''),
        c_check = Inr ((case coverage t of None \<Rightarrow> 0 | Some c \<Rightarrow> c)
                         \<ge> (case minCoverage s of None \<Rightarrow> 70 | Some m \<Rightarrow> if m = 0 then 70 else m)),
        c_weight = 30, c_critical = False \<rparr>,
      \<lparr> c_name = (S ''Casos de teste abrangentes''),
        c_check = Inr (case testCasesCreated e of None \<Rightarrow> False | Some n \<Rightarrow> n > 0),
        c_weight = 20, c_critical = False \<rparr>,
      \<lparr> c_name = (S ''Relat'' @ [0xF3] @ S ''rio de testes gerado''),
        c_check = Inr (testReport e \<noteq> IsUndefined), c_weight = 10, c_critical = False \<rparr>]"

definition documentation_criteria :: "xstep \<Rightarrow> executionResult \<Rightarrow> testResult \<Rightarrow> criterion list" where
  "documentation_criteria s e t =
     [\<lparr> c_name = (S ''Documenta'' @ [0xE7, 0xE3] @ S ''o criada/atualizada''),
        c_check = Inr (documentationUpdated e = Some True), c_weight = 40, c_critical = True \<rparr>,
      \<lparr> c_name = (S ''README atualizado se necess'' @ [0xE1] @ S ''rio''),
        c_check = Inr (if updateReadme s then readmeUpdated e = Some True else True),
        c_weight = 25, c_critical = False \<rparr>,
      \<lparr> c_name = (S ''Coment'' @ [0xE1] @ S ''rios no c'' @ [0xF3] @ S ''digo adequados''),
        c_check = Inr (codeCommentsUpdated e \<noteq> Some False), c_weight = 20, c_critical = False \<rparr>,
      \<lparr> c_name = (S ''Exemplos de uso inclu'' @ [0xED] @ S ''dos''),
        c_check = Inr (examplesIncluded e \<noteq> Some False), c_weight = 15, c_critical = False \<rparr>]"

definition validation_criteria :: "executionResult \<Rightarrow> testResult \<Rightarrow> criterion list" where
  "validation_criteria e t =
     [\<lparr> c_name = (S ''Valida'' @ [0xE7, 0xE3] @ S ''o executada''),
        c_check = Inr (validationPerformed e = Some True), c_weight = 50, c_critical = True \<rparr>,
      \<lparr> c_name = (S ''Crit'' @ [0xE9] @ S ''rios atendidos''),
        c_check = Inr (criteriasMet e = Some True), c_weight = 30, c_critical = True \<rparr>,
      \<lparr> c_name = (S ''Relat'' @ [0xF3] @ S ''rio de valida'' @ [0xE7, 0xE3] @ S ''o gerado''),
        c_check = Inr (validationReport e \<noteq> IsUndefined), c_weight = 20, c_critical = False \<rparr>]"

definition general_criteria :: "executionResult \<Rightarrow> testResult \<Rightarrow> criterion list" where
  "general_criteria e t =
     [\<lparr> c_name = (S ''Execu'' @ [0xE7, 0xE3] @ S ''o completada''),
        c_check = Inr (completed e = Some True), c_weight = 40, c_critical = True \<rparr>,
      \<lparr> c_name = (S ''Sem erros cr'' @ [0xED] @ S ''ticos''),
        c_check = Inr (length (errors t) = 0), c_weight = 30, c_critical = True \<rparr>,
      \<lparr> c_name = (S ''Objetivos atingidos''),
        c_check = Inr (objectivesAchieved e \<noteq> Some False), c_weight = 20, c_critical = False \<rparr>,
      \<lparr> c_name = (S ''Deliverables criados''),
        c_check = Inr (er_deliverables e \<noteq> None), c_weight = 10, c_critical = False \<rparr>]"

text \<open>The rubric that \<open>validate\<close>'s \<open>switch\<close> selects for a step.\<close>

definition rubric :: "xstep \<Rightarrow> executionResult \<Rightarrow> testResult \<Rightarrow> criterion list" where
  "rubric s e t =
     (if step_type s = (S ''analysis'') then analysis_criteria e t
      else if step_type s = (S ''implementation'') then implementation_criteria e t
      else if step_type s = (S ''investigation'') then investigation_criteria e t
      else if step_type s = (S ''fix'') then fix_criteria e t
      else if step_type s = (S ''refactor'') then refactor_criteria s e t
      else if step_type s = (S ''testing'') then testing_criteria s e t
      else if step_type s = (S ''documentation'') then documentation_criteria s e t
      else if step_type s = (S ''validation'') then validation_criteria e t
      else general_criteria e t)"

subsection \<open>The checks that follow the rubric\<close>

definition push_reason :: "jsstring \<Rightarrow> validationResult \<Rightarrow> validationResult" where
  "push_reason r vr = vr\<lparr>reasons := reasons vr @ [r]\<rparr>"

definition push_recommendation :: "jsstring \<Rightarrow> validationResult \<Rightarrow> validationResult" where
  "push_recommendation r vr = vr\<lparr>recommendations := recommendations vr @ [r]\<rparr>"

definition set_metric :: "jsstring \<Rightarrow> metric \<Rightarrow> validationResult \<Rightarrow> validationResult" where
  "set_metric k v vr = vr\<lparr>metrics := AList.update k v (metrics vr)\<rparr>"

text \<open>\<open>verifyDependenciesInstalled\<close>: false at the first dependency \<open>npm list\<close> fails on.\<close>

definition verifyDependenciesInstalled :: "environment \<Rightarrow> jsstring list \<Rightarrow> bool" where
  "verifyDependenciesInstalled env dependencies = list_all (npm_list env) dependencies"

text \<open>\<open>executionResult.deliverables?.dependencyCheck?.missing\<close>, when it is a list.\<close>

definition missing_dependencies :: "executionResult \<Rightarrow> jsstring list" where
  "missing_dependencies e =
     (case er_deliverables e of
        None \<Rightarrow> []
      | Some d \<Rightarrow>
          (case d_dependencyCheck d of
             Present dc \<Rightarrow> (case missing dc of Present ms \<Rightarrow> ms | _ \<Rightarrow> [])
           | _ \<Rightarrow> []))"

definition validateAnalysis ::
  "environment \<Rightarrow> xstep \<Rightarrow> executionResult \<Rightarrow> testResult \<Rightarrow> validationResult
     \<Rightarrow> validationResult" where
  "validateAnalysis env s e t vr =
     (let vr1 = evaluateCriteria (analysis_criteria e t) vr
      in if length (missing_dependencies e) > 0 then
           (if verifyDependenciesInstalled env (missing_dependencies e) then vr1
            else push_recommendation (S ''Instalar depend'' @ [0xEA] @ S ''ncias faltantes antes de prosseguir'')
                   (push_reason (S ''Depend'' @ [0xEA] @ S ''ncias ainda n'' @ [0xE3] @ S ''o instaladas'') vr1))
         else vr1)"

text \<open>
  \<open>validateCreatedFiles\<close>: the loop carries \<open>validFiles\<close> and the result; the metric is
  written when the list is not empty.
\<close>

fun createdFiles_loop ::
  "environment \<Rightarrow> jsstring list \<Rightarrow> nat \<times> validationResult \<Rightarrow> nat \<times> validationResult" where
  "createdFiles_loop env [] acc = acc"
| "createdFiles_loop env (f # fs) acc =
     createdFiles_loop env fs
       (case acc of (validFiles, vr) \<Rightarrow>
          (case files env f of
             Some content \<Rightarrow>
               (validFiles + 1,
                if length content = 0 then push_reason (warn_mark @ (S ''Arquivo vazio: '') @ basename f) vr
                else push_reason (pass_mark @ (S ''Arquivo v'' @ [0xE1] @ S ''lido: '') @ basename f) vr)
           | None \<Rightarrow>
               (validFiles,
                push_reason (fail_mark @ (S ''Arquivo n'' @ [0xE3] @ S ''o encontrado: '') @ basename f) vr)))"

definition validateCreatedFiles ::
  "environment \<Rightarrow> jsstring list \<Rightarrow> validationResult \<Rightarrow> validationResult" where
  "validateCreatedFiles env fs vr =
     (case createdFiles_loop env fs (0, vr) of
        (validFiles, vr1) \<Rightarrow>
          if length fs > 0 then
            set_metric (S ''filesValidation'')
              (MText (js_number_string validFiles @ (S ''/'') @ js_number_string (length fs))) vr1
          else vr1)"

text \<open>
  \<open>checkRequirementFulfillment\<close>. A plain string has no \<open>type\<close>, so it takes the
  \<open>default\<close> branch; \<open>x?.includes(v) || false\<close> is false for a missing list.
\<close>

definition in_optional_list :: "jsstring \<Rightarrow> jsstring list option \<Rightarrow> bool" where
  "in_optional_list v xs = (case xs of None \<Rightarrow> False | Some l \<Rightarrow> v \<in> set l)"

fun checkRequirementFulfillment :: "requirement \<Rightarrow> executionResult \<Rightarrow> bool" where
  "checkRequirementFulfillment (ReqText x) e = True"
| "checkRequirementFulfillment (ReqItem ty v n) e =
     (if ty = (S ''file'') then v \<in> set (filesCreated e) \<or> v \<in> set (filesModified e)
      else if ty = (S ''function'') then in_optional_list v (functionsImplemented e)
      else if ty = (S ''test'') then in_optional_list v (testsCreated e)
      else if ty = (S ''dependency'') then in_optional_list v (dependenciesInstalled e)
      else True)"

text \<open>\<open>${requirement.name}\<close>: the text \<open>undefined\<close> for a plain string.\<close>

fun requirement_name :: "requirement \<Rightarrow> jsstring" where
  "requirement_name (ReqText x) = (S ''undefined'')"
| "requirement_name (ReqItem ty v n) = n"

fun requirements_loop ::
  "executionResult \<Rightarrow> requirement list \<Rightarrow> nat \<times> validationResult \<Rightarrow> nat \<times> validationResult" where
  "requirements_loop e [] acc = acc"
| "requirements_loop e (r # rs) acc =
     requirements_loop e rs
       (case acc of (fulfilledCount, vr) \<Rightarrow>
          if checkRequirementFulfillment r e then
            (fulfilledCount + 1, push_reason (pass_mark @ (S ''Requisito atendido: '') @ requirement_name r) vr)
          else
            (fulfilledCount, push_reason (fail_mark @ (S ''Requisito n'' @ [0xE3] @ S ''o atendido: '') @ requirement_name r) vr))"

definition verifyRequirementsFulfillment ::
  "xstep \<Rightarrow> executionResult \<Rightarrow> validationResult \<Rightarrow> validationResult" where
  "verifyRequirementsFulfillment s e vr =
     (if length (step_requirements s) > 0 then
        (case requirements_loop e (step_requirements s) (0, vr) of
           (fulfilledCount, vr1) \<Rightarrow>
             (let vr2 = set_metric (S ''requirementsFulfillment'')
                          (MText (js_number_string fulfilledCount @ (S ''/'')
                                    @ js_number_string (length (step_requirements s)))) vr1
              in if fulfilledCount < length (step_requirements s)
                 then push_recommendation (S ''Atender todos os requisitos especificados'') vr2
                 else vr2))
      else vr)"

definition validateImplementation ::
  "environment \<Rightarrow> xstep \<Rightarrow> executionResult \<Rightarrow> testResult \<Rightarrow> validationResult
     \<Rightarrow> validationResult" where
  "validateImplementation env s e t vr =
     verifyRequirementsFulfillment s e
       (validateCreatedFiles env (filesCreated e)
          (evaluateCriteria (implementation_criteria e t) vr))"

text \<open>A string property is truthy when it holds a non-empty string.\<close>

definition truthy_text :: "jsstring field \<Rightarrow> bool" where
  "truthy_text f = (case f of Present x \<Rightarrow> x \<noteq> [] | _ \<Rightarrow> False)"

definition validateInvestigation ::
  "environment \<Rightarrow> xstep \<Rightarrow> executionResult \<Rightarrow> testResult \<Rightarrow> validationResult
     \<Rightarrow> validationResult" where
  "validateInvestigation env s e t vr =
     (let vr1 = evaluateCriteria (investigation_criteria e t) vr
      in case er_deliverables e of
           None \<Rightarrow> vr1
         | Some d \<Rightarrow>
             (case d_errorAnalysis d of
                Present a \<Rightarrow>
                  if \<not> truthy_text (stackTrace a) \<and> \<not> truthy_text (errorMessage a)
                  then push_reason (S ''An'' @ [0xE1] @ S ''lise de erro incompleta'') vr1 else vr1
              | _ \<Rightarrow> vr1))"

text \<open>
  \<open>verifyOriginalErrorFixed\<close>, called with a verification result that is present:
  \<open>!remainingErrors?.includes(m)\<close> is true when the list is missing.
\<close>

definition verifyOriginalErrorFixed :: "jsstring \<Rightarrow> verificationResult \<Rightarrow> bool" where
  "verifyOriginalErrorFixed message v =
     (errorResolved v = Some True \<or> \<not> in_optional_list message (remainingErrors v))"

definition validateFix ::
  "environment \<Rightarrow> xstep \<Rightarrow> executionResult \<Rightarrow> testResult \<Rightarrow> validationResult
     \<Rightarrow> validationResult" where
  "validateFix env s e t vr =
     (let vr1 = evaluateCriteria (fix_criteria e t) vr
      in case originalError s of
           None \<Rightarrow> vr1
         | Some message \<Rightarrow>
             (case verificationResult e of
                None \<Rightarrow> vr1
              | Some v \<Rightarrow>
                  if verifyOriginalErrorFixed message v then vr1
                  else push_reason (S ''Problema original ainda n'' @ [0xE3] @ S ''o foi resolvido'') vr1))"

definition validateRefactor ::
  "environment \<Rightarrow> xstep \<Rightarrow> executionResult \<Rightarrow> testResult \<Rightarrow> validationResult
     \<Rightarrow> validationResult" where
  "validateRefactor env s e t vr = evaluateCriteria (refactor_criteria s e t) vr"

definition validateTesting ::
  "environment \<Rightarrow> xstep \<Rightarrow> executionResult \<Rightarrow> testResult \<Rightarrow> validationResult
     \<Rightarrow> validationResult" where
  "validateTesting env s e t vr =
     (let vr1 = evaluateCriteria (testing_criteria s e t) vr
      in case testCasesCreated e of
           None \<Rightarrow> vr1
         | Some n \<Rightarrow>
             if n > 0 then
               set_metric (S ''coverage'') (MNumber (coverage t))
                 (set_metric (S ''testCases'') (MNumber (Some n)) vr1)
             else vr1)"

text \<open>\<open>validateDocumentationQuality\<close>: one reason for each documentation file that exists.\<close>

fun documentation_loop ::
  "environment \<Rightarrow> jsstring list \<Rightarrow> validationResult \<Rightarrow> validationResult" where
  "documentation_loop env [] vr = vr"
| "documentation_loop env (f # fs) vr =
     documentation_loop env fs
       (case files env f of
          None \<Rightarrow> vr
        | Some content \<Rightarrow>
            (let hasTitle = js_includes content (S ''#'') \<or> js_includes content (S ''<h'');
                 hasExamples = js_includes content [0x60, 0x60, 0x60] \<or> js_includes content (S ''exemplo'');
                 hasMinimumLength = length content > 100
             in if hasTitle \<and> hasExamples \<and> hasMinimumLength
                then push_reason (pass_mark @ (S ''Documenta'' @ [0xE7, 0xE3] @ S ''o de qualidade: '') @ basename f) vr
                else push_reason (warn_mark @ (S ''Documenta'' @ [0xE7, 0xE3] @ S ''o b'' @ [0xE1] @ S ''sica: '') @ basename f) vr))"

definition validateDocumentationQuality ::
  "environment \<Rightarrow> executionResult \<Rightarrow> validationResult \<Rightarrow> validationResult" where
  "validateDocumentationQuality env e vr =
     (case documentationFiles e of None \<Rightarrow> vr | Some fs \<Rightarrow> documentation_loop env fs vr)"

definition validateDocumentation ::
  "environment \<Rightarrow> xstep \<Rightarrow> executionResult \<Rightarrow> testResult \<Rightarrow> validationResult
     \<Rightarrow> validationResult" where
  "validateDocumentation env s e t vr =
     validateDocumentationQuality env e (evaluateCriteria (documentation_criteria s e t) vr)"

definition validateValidation ::
  "environment \<Rightarrow> xstep \<Rightarrow> executionResult \<Rightarrow> testResult \<Rightarrow> validationResult
     \<Rightarrow> validationResult" where
  "validateValidation env s e t vr = evaluateCriteria (validation_criteria e t) vr"

definition validateGeneral ::
  "environment \<Rightarrow> xstep \<Rightarrow> executionResult \<Rightarrow> testResult \<Rightarrow> validationResult
     \<Rightarrow> validationResult" where
  "validateGeneral env s e t vr = evaluateCriteria (general_criteria e t) vr"

subsection \<open>The general validation, the approval and the readiness for the next step\<close>

text \<open>
  \<open>validateDeliverables\<close>: the bag must have a key, and no key may hold \<open>undefined\<close> or
  \<open>null\<close>.
\<close>

definition deliverable_keys :: "deliverables \<Rightarrow> unit field list" where
  "deliverable_keys d =
     filter has_key
       ([map_field (\<lambda>x. ()) (d_requirements d), map_field (\<lambda>x. ()) (d_dependencyCheck d),
         map_field (\<lambda>x. ()) (d_fileStructure d), map_field (\<lambda>x. ()) (d_technologies d),
         map_field (\<lambda>x. ()) (d_dependencies d), map_field (\<lambda>x. ()) (d_errorAnalysis d),
         d_reproduction d, d_rootCause d, d_proposedSolution d] @ d_other d)"

definition validateDeliverables :: "deliverables \<Rightarrow> bool" where
  "validateDeliverables d =
     (if length (deliverable_keys d) = 0 then False
      else list_all is_present (deliverable_keys d))"

text \<open>\<open>performGeneralValidation\<close> is five blocks in a row, each an \<open>if\<close> of its own.\<close>

definition check_executionTime :: "executionResult \<Rightarrow> validationResult \<Rightarrow> validationResult" where
  "check_executionTime e vr =
     (case executionTime e of
        None \<Rightarrow> vr
      | Some ms \<Rightarrow>
          if ms > 300000 then
            push_recommendation (S ''Otimizar tempo de execu'' @ [0xE7, 0xE3] @ S ''o'')
              (push_reason (warn_mark @ (S ''Tempo de execu'' @ [0xE7, 0xE3] @ S ''o muito longo'')) vr)
          else vr)"

definition check_memoryUsage :: "executionResult \<Rightarrow> validationResult \<Rightarrow> validationResult" where
  "check_memoryUsage e vr =
     (case memoryUsage e of
        None \<Rightarrow> vr
      | Some mb \<Rightarrow>
          if mb > 512 then
            push_recommendation (S ''Otimizar uso de mem'' @ [0xF3] @ S ''ria'')
              (push_reason (warn_mark @ (S ''Alto uso de mem'' @ [0xF3] @ S ''ria'')) vr)
          else vr)"

definition check_logs :: "executionResult \<Rightarrow> validationResult \<Rightarrow> validationResult" where
  "check_logs e vr =
     (case logs e of
        None \<Rightarrow> vr
      | Some levels \<Rightarrow>
          if list_ex (\<lambda>level. level = (S ''error'')) levels then
            push_recommendation (S ''Revisar e resolver erros nos logs'')
              (push_reason (warn_mark @ (S ''Logs de erro encontrados'')) vr)
          else vr)"

definition check_deliverables :: "executionResult \<Rightarrow> validationResult \<Rightarrow> validationResult" where
  "check_deliverables e vr =
     (case er_deliverables e of
        None \<Rightarrow> vr
      | Some d \<Rightarrow>
          if validateDeliverables d then vr
          else push_reason (fail_mark @ (S ''Deliverables inv'' @ [0xE1] @ S ''lidos'')) vr)"

definition check_backup :: "executionResult \<Rightarrow> validationResult \<Rightarrow> validationResult" where
  "check_backup e vr =
     (if length (filesModified e) > 0 then
        (if backupCreated e = Some True then vr
         else push_recommendation (S ''Criar backup antes de modificar arquivos'')
                (push_reason (warn_mark @ (S ''Backup n'' @ [0xE3] @ S ''o foi criado antes das modifica'' @ [0xE7, 0xF5] @ S ''es'')) vr))
      else vr)"

definition performGeneralValidation ::
  "xstep \<Rightarrow> executionResult \<Rightarrow> testResult \<Rightarrow> validationResult \<Rightarrow> validationResult" where
  "performGeneralValidation s e t vr =
     check_backup e
       (check_deliverables e (check_logs e (check_memoryUsage e (check_executionTime e vr))))"

text \<open>
  \<open>calculateFinalApproval\<close>: the three conditions are computed first; then the approval
  is assigned, then the final confidence, then the two recommendations are added.
\<close>

definition assign_approval :: "bool \<Rightarrow> bool \<Rightarrow> bool \<Rightarrow> validationResult \<Rightarrow> validationResult" where
  "assign_approval hasNoCriticalFailures hasMinimumScore hasHighConfidence vr =
     vr\<lparr>approved := hasNoCriticalFailures \<and> hasMinimumScore,
        finalApproval := (hasNoCriticalFailures \<and> hasMinimumScore) \<and> hasHighConfidence\<rparr>"

definition final_confidence :: "bool \<Rightarrow> validationResult \<Rightarrow> validationResult" where
  "final_confidence hasNoCriticalFailures vr =
     (if qualityScore vr \<ge> 90 \<and> hasNoCriticalFailures then vr\<lparr>confidence := (S ''high'')\<rparr>
      else if qualityScore vr \<ge> 70 \<and> hasNoCriticalFailures then vr\<lparr>confidence := (S ''medium'')\<rparr>
      else vr\<lparr>confidence := (S ''low'')\<rparr>)"

definition score_recommendations :: "validationResult \<Rightarrow> validationResult" where
  "score_recommendations vr =
     (let vr1 = (if qualityScore vr < 70
                 then push_recommendation (S ''Melhorar qualidade geral antes de prosseguir'') vr
                 else vr)
      in if completeness vr1 < 80 then push_recommendation (S ''Completar tarefas pendentes'') vr1
         else vr1)"

definition calculateFinalApproval :: "validationResult \<Rightarrow> validationResult" where
  "calculateFinalApproval vr =
     (let hasNoCriticalFailures =
            (\<not> list_ex (\<lambda>r. js_includes r [0x274C] \<and> js_includes r (S ''CR'' @ [0xCD] @ S ''TICO'')) (reasons vr));
          hasMinimumScore = (qualityScore vr \<ge> 70);
          hasHighConfidence =
            (confidence vr = (S ''high'') \<or> (confidence vr = (S ''medium'') \<and> qualityScore vr \<ge> 80))
      in score_recommendations
           (final_confidence hasNoCriticalFailures
              (assign_approval hasNoCriticalFailures hasMinimumScore hasHighConfidence vr)))"

definition checkNextStepReadiness :: "xstep \<Rightarrow> validationResult \<Rightarrow> validationResult" where
  "checkNextStepReadiness s vr =
     (let vr1 = vr\<lparr>nextStepApproved := approved vr\<rparr>;
          vr2 =
            (if step_type s = (S ''analysis'') then
               vr1\<lparr>nextStepApproved := approved vr1 \<and> qualityScore vr1 \<ge> 80\<rparr>
             else if step_type s = (S ''implementation'') then
               vr1\<lparr>nextStepApproved := approved vr1 \<and>
                      list_ex (\<lambda>r. js_includes r [0x2705] \<and> js_includes r (S ''Funcionalidade''))
                        (reasons vr1)\<rparr>
             else if step_type s = (S ''fix'') then
               vr1\<lparr>nextStepApproved := approved vr1 \<and>
                      list_ex (\<lambda>r. js_includes r [0x2705] \<and> js_includes r (S ''problema original''))
                        (reasons vr1)\<rparr>
             else vr1)
      in if \<not> nextStepApproved vr2
         then push_recommendation (S ''Completar etapa atual antes de prosseguir'') vr2
         else vr2)"

subsection \<open>validate\<close>

text \<open>The validator object: its only state is the history of the results it returned.\<close>

record validator =
  validationHistory :: "validationResult list"

definition validate_by_type ::
  "environment \<Rightarrow> xstep \<Rightarrow> executionResult \<Rightarrow> testResult \<Rightarrow> validationResult
     \<Rightarrow> validationResult" where
  "validate_by_type env s e t vr =
     (if step_type s = (S ''analysis'') then validateAnalysis env s e t vr
      else if step_type s = (S ''implementation'') then validateImplementation env s e t vr
      else if step_type s = (S ''investigation'') then validateInvestigation env s e t vr
      else if step_type s = (S ''fix'') then validateFix env s e t vr
      else if step_type s = (S ''refactor'') then validateRefactor env s e t vr
      else if step_type s = (S ''testing'') then validateTesting env s e t vr
      else if step_type s = (S ''documentation'') then validateDocumentation env s e t vr
      else if step_type s = (S ''validation'') then validateValidation env s e t vr
      else validateGeneral env s e t vr)"

text \<open>The record that \<open>validate\<close> starts from.\<close>

definition initial_result :: "jsstring \<Rightarrow> xstep \<Rightarrow> validationResult" where
  "initial_result now s =
     \<lparr> vr_stepId = step_id s,
       stepTitle = step_title s,
       timestamp = now,
       approved = False,
       confidence = (S ''low''),
       reasons = [],
       recommendations = [],
       nextStepApproved = False,
       finalApproval = False,
       qualityScore = 0,
       completeness = 0,
       metrics = [] \<rparr>"

text \<open>
  \<open>validate\<close>: \<open>now\<close> is the clock (\<open>new Date().toISOString()\<close>), \<open>env\<close> the outside
  world. With records of these types no statement of \<open>validate\<close> throws, so the \<open>catch\<close>
  that rethrows is never entered. The result is returned and appended to the history.
\<close>

definition validate ::
  "jsstring \<Rightarrow> environment \<Rightarrow> validator \<Rightarrow> xstep \<Rightarrow> executionResult \<Rightarrow> testResult
     \<Rightarrow> validationResult \<times> validator" where
  "validate now env v s e t =
     (let vr0 = initial_result now s;
          vr1 = validate_by_type env s e t vr0;
          vr2 = performGeneralValidation s e t vr1;
          vr3 = calculateFinalApproval vr2;
          vr4 = checkNextStepReadiness s vr3
      in (vr4, v\<lparr>validationHistory := validationHistory v @ [vr4]\<rparr>))"

section \<open>The check runner and the diagnoser (mcp-2-tester.js)\<close>

text \<open>
  A check of a battery. As for a criterion, \<open>t_test\<close> holds what the single call of
  \<open>test\<close> gives: \<open>Inr b\<close>, the truthiness of its value, or \<open>Inl m\<close> when it throws.
\<close>

record check =
  t_name :: jsstring
  t_test :: "jsstring + bool"
  t_critical :: bool

definition run_check :: "check \<Rightarrow> testResult \<Rightarrow> testResult" where
  "run_check c tr =
     (case t_test c of
        Inr result \<Rightarrow>
          if result then tr\<lparr>passed := passed tr @ [t_name c]\<rparr>
          else
            (let tr1 = tr\<lparr>failed := failed tr @ [t_name c]\<rparr>
             in if t_critical c then
                  tr1\<lparr>errors := errors tr1 @ [(S ''CR'' @ [0xCD] @ S ''TICO: '') @ t_name c], hasErrors := True\<rparr>
                else tr1\<lparr>warnings := warnings tr1 @ [t_name c]\<rparr>)
      | Inl m \<Rightarrow>
          tr\<lparr>failed := failed tr @ [t_name c],
             errors := errors tr @ [(S ''Erro em '') @ t_name c @ (S '': '') @ m],
             hasErrors := True\<rparr>)"

fun runTestSuite :: "check list \<Rightarrow> testResult \<Rightarrow> testResult" where
  "runTestSuite [] tr = tr"
| "runTestSuite (c # cs) tr = runTestSuite cs (run_check c tr)"

text \<open>
  \<open>verifyAnalysisQuality\<close>: each check is \<open>x && x.length > 0\<close> on a deliverable (for the
  file structure, on its keys); it is called with a bag that is present.
\<close>

definition nonempty_list :: "jsstring list field \<Rightarrow> bool" where
  "nonempty_list f = (case f of Present xs \<Rightarrow> length xs > 0 | _ \<Rightarrow> False)"

definition verifyAnalysisQuality :: "deliverables \<Rightarrow> testResult \<Rightarrow> testResult" where
  "verifyAnalysisQuality d tr =
     runTestSuite
       [\<lparr> t_name = (S ''Requisitos detalhados''),
          t_test = Inr (nonempty_list (d_requirements d)), t_critical = True \<rparr>,
        \<lparr> t_name = (S ''Tecnologias identificadas''),
          t_test = Inr (nonempty_list (d_technologies d)), t_critical = False \<rparr>,
        \<lparr> t_name = (S ''Estrutura de arquivos definida''),
          t_test = Inr (nonempty_list (d_fileStructure d)), t_critical = False \<rparr>,
        \<lparr> t_name = (S ''Depend'' @ [0xEA] @ S ''ncias listadas''),
          t_test = Inr (nonempty_list (d_dependencies d)), t_critical = False \<rparr>]
       tr"

definition testAnalysis :: "xstep \<Rightarrow> executionResult \<Rightarrow> testResult \<Rightarrow> testResult" where
  "testAnalysis s e tr =
     (case er_deliverables e of
        None \<Rightarrow> tr\<lparr>errors := errors tr @ [(S ''Deliverables n'' @ [0xE3] @ S ''o foram criados'')]\<rparr>
      | Some d \<Rightarrow>
          verifyAnalysisQuality d
            (runTestSuite
               [\<lparr> t_name = (S ''Requisitos analisados''),
                  t_test = Inr (is_defined (d_requirements d)), t_critical = True \<rparr>,
                \<lparr> t_name = (S ''Depend'' @ [0xEA] @ S ''ncias verificadas''),
                  t_test = Inr (is_defined (d_dependencyCheck d)), t_critical = True \<rparr>,
                \<lparr> t_name = (S ''Estrutura preparada''),
                  t_test = Inr (is_defined (d_fileStructure d)), t_critical = False \<rparr>]
               tr))"

text \<open>
  \<open>testTesting\<close>: \<open>executionResult.coverage >= (step.minCoverage || 80)\<close> is false for a
  missing coverage (\<open>undefined\<close> is not a number).
\<close>

definition testTesting :: "xstep \<Rightarrow> executionResult \<Rightarrow> testResult \<Rightarrow> testResult" where
  "testTesting s e tr =
     runTestSuite
       [\<lparr> t_name = (S ''Testes executaram sem erro''),
          t_test = Inr (er_testsPassed e = Some True), t_critical = True \<rparr>,
        \<lparr> t_name = (S ''Coverage m'' @ [0xED] @ S ''nimo atingido''),
          t_test = Inr (case er_coverage e of
                          None \<Rightarrow> False
                        | Some c \<Rightarrow>
                            c \<ge> (case minCoverage s of
                                   None \<Rightarrow> 80
                                 | Some m \<Rightarrow> if m = 0 then 80 else m)),
          t_critical = False \<rparr>,
        \<lparr> t_name = (S ''Relat'' @ [0xF3] @ S ''rio de testes gerado''),
          t_test = Inr (testReport e \<noteq> IsUndefined), t_critical = False \<rparr>]
       tr"

definition testDocumentation :: "xstep \<Rightarrow> executionResult \<Rightarrow> testResult \<Rightarrow> testResult" where
  "testDocumentation s e tr =
     runTestSuite
       [\<lparr> t_name = (S ''Documenta'' @ [0xE7, 0xE3] @ S ''o foi criada/atualizada''),
          t_test = Inr (documentationUpdated e = Some True), t_critical = True \<rparr>,
        \<lparr> t_name = (S ''README atualizado se necess'' @ [0xE1] @ S ''rio''),
          t_test = Inr (if updateReadme s then readmeUpdated e = Some True else True),
          t_critical = False \<rparr>,
        \<lparr> t_name = (S ''Coment'' @ [0xE1] @ S ''rios no c'' @ [0xF3] @ S ''digo atualizados''),
          t_test = Inr (codeCommentsUpdated e \<noteq> Some False), t_critical = False \<rparr>]
       tr"

text \<open>
  The final verification of \<open>test\<close>: \<open>hasErrors\<close>, \<open>canProceed\<close> and \<open>endTime\<close> are
  assigned on the record.
\<close>

definition final_verification :: "jsstring \<Rightarrow> testResult \<Rightarrow> testResult" where
  "final_verification now tr =
     (let tr1 = tr\<lparr>hasErrors := (length (errors tr) > 0 \<or> length (failed tr) > 0)\<rparr>
      in tr1\<lparr>canProceed := (\<not> hasErrors tr1), endTime := Some now\<rparr>)"

text \<open>
  \<open>MCPTester\<close> declares \<open>testAnalysis\<close>, \<open>testImplementation\<close>, \<open>testModification\<close>,
  \<open>testTesting\<close> and \<open>testDocumentation\<close> only: the other methods that \<open>test\<close>'s \<open>switch\<close>
  calls, and \<open>calculateDuration\<close>, are not defined, so the call throws a \<open>TypeError\<close>.
  \<open>testImplementation\<close> runs external commands; what it does to the record is the
  parameter \<open>impl\<close>.

  \<open>test_checked\<close> is \<open>test\<close> up to the final verification: the check record as it stands
  when \<open>calculateDuration\<close> is called. \<open>test\<close> then throws, and returns no record.
\<close>

definition calculateDuration :: "jsstring \<Rightarrow> jsstring option \<Rightarrow> error + jsstring" where
  "calculateDuration start finish = Inl (missing_method ''calculateDuration'')"

definition test_checked ::
  "jsstring \<Rightarrow> jsstring \<Rightarrow> (testResult \<Rightarrow> error + testResult) \<Rightarrow> xstep \<Rightarrow> executionResult
     \<Rightarrow> error + testResult" where
  "test_checked start now impl s e =
     (let tr0 = \<lparr> tr_stepId = step_id s,
                  testType = step_type s,
                  startTime = start,
                  hasErrors = False,
                  errors = [],
                  warnings = [],
                  passed = [],
                  failed = [],
                  coverage = None,
                  performance_executionTime = None,
                  tr_recommendations = [],
                  canProceed = False,
                  endTime = None,
                  testsPassed = None \<rparr>;
          r = (if step_type s = (S ''analysis'') then Inr (testAnalysis s e tr0)
               else if step_type s = (S ''implementation'') then impl tr0
               else if step_type s = (S ''investigation'') then Inl (missing_method ''testInvestigation'')
               else if step_type s = (S ''fix'') then Inl (missing_method ''testFix'')
               else if step_type s = (S ''refactor'') then Inl (missing_method ''testRefactor'')
               else if step_type s = (S ''testing'') then Inr (testTesting s e tr0)
               else if step_type s = (S ''documentation'') then Inr (testDocumentation s e tr0)
               else if step_type s = (S ''validation'') then Inl (missing_method ''testValidation'')
               else Inl (missing_method ''testGeneral''))
      in case r of Inl err \<Rightarrow> Inl err | Inr tr \<Rightarrow> Inr (final_verification now tr))"

definition test ::
  "jsstring \<Rightarrow> jsstring \<Rightarrow> (testResult \<Rightarrow> error + testResult) \<Rightarrow> xstep \<Rightarrow> executionResult
     \<Rightarrow> error + testResult" where
  "test start now impl s e =
     (case test_checked start now impl s e of
        Inl err \<Rightarrow> Inl err
      | Inr tr \<Rightarrow>
          (case calculateDuration (startTime tr) (endTime tr) of
             Inl err \<Rightarrow> Inl err
           | Inr d \<Rightarrow> Inr tr))"

subsection \<open>diagnose\<close>

text \<open>
  The class body defines \<open>diagnose\<close> twice, \<open>diagnose(errors)\<close> and then
  \<open>diagnose(step, executionResult, testResult)\<close>; the later definition replaces the
  earlier one, so it is the method an instance has. Its first argument is read as a step;
  the orchestrator passes the error list there and nothing else, so the argument is
  either, and the other two may be \<open>undefined\<close> (\<open>None\<close>).
\<close>

datatype diagnose_subject = SubjectStep xstep | SubjectErrors "jsstring list"

datatype issue =
    IssueCount jsstring nat "jsstring list"
  | IssueDetail jsstring jsstring

record diagnosis =
  dg_timestamp :: jsstring
  dg_step :: "nat option"
  issues :: "issue list"
  dg_recommendations :: "jsstring list"
  severity :: jsstring

definition js_int_string :: "int \<Rightarrow> jsstring" where
  "js_int_string i = (if i < 0 then (S ''-'') @ js_number_string (nat (- i)) else js_number_string (nat i))"

definition cannot_read :: "string \<Rightarrow> string \<Rightarrow> error" where
  "cannot_read base property =
     TypeError (S ''Cannot read properties of '' @ S base @ S '' (reading '' @ [0x27] @ S property
                  @ [0x27] @ S '')'')"

text \<open>An array has neither \<open>id\<close> nor \<open>type\<close>: both read as \<open>undefined\<close>.\<close>

fun subject_id :: "diagnose_subject \<Rightarrow> nat option" where
  "subject_id (SubjectStep s) = Some (step_id s)"
| "subject_id (SubjectErrors es) = None"

fun subject_type :: "diagnose_subject \<Rightarrow> jsstring option" where
  "subject_type (SubjectStep s) = Some (step_type s)"
| "subject_type (SubjectErrors es) = None"

definition diagnose ::
  "jsstring \<Rightarrow> diagnose_subject \<Rightarrow> executionResult option \<Rightarrow> testResult option
     \<Rightarrow> error + diagnosis" where
  "diagnose now subject executionResult testResult =
     (case testResult of
        None \<Rightarrow> Inl (cannot_read ''undefined'' ''errors'')
      | Some t \<Rightarrow>
          (let d0 = \<lparr> dg_timestamp = now, dg_step = subject_id subject, issues = [],
                       dg_recommendations = [], severity = (S ''low'') \<rparr>;
               criticalErrors =
                 filter (\<lambda>x. js_includes x (S ''CR'' @ [0xCD] @ S ''TICO'') \<or> js_includes x (S ''Erro de sintaxe'')
                               \<or> js_includes x (S ''Testes unit'' @ [0xE1] @ S ''rios falharam'')) (errors t);
               d1 = (if length criticalErrors > 0 then
                       d0\<lparr>severity := (S ''high''),
                          issues := issues d0 @
                            [IssueCount (S ''critical'') (length criticalErrors) criticalErrors],
                          dg_recommendations := dg_recommendations d0 @
                            [(S ''Corrigir erros cr'' @ [0xED] @ S ''ticos antes de prosseguir'')]\<rparr>
                     else d0);
               d2 = (if length (warnings t) > 0 then
                       d1\<lparr>severity := (if severity d1 = (S ''low'') then (S ''medium'') else severity d1),
                          issues := issues d1 @
                            [IssueCount (S ''warning'') (length (warnings t)) (warnings t)],
                          dg_recommendations := dg_recommendations d1 @
                            [(S ''Revisar warnings para melhorar qualidade'')]\<rparr>
                     else d1);
               d3 = (case performance_executionTime t of
                       None \<Rightarrow> d2
                     | Some ms \<Rightarrow>
                         if ms > 5000 then
                           d2\<lparr>issues := issues d2 @
                                [IssueDetail (S ''performance'')
                                   ((S ''Execu'' @ [0xE7, 0xE3] @ S ''o lenta: '') @ js_int_string ms @ (S ''ms''))],
                              dg_recommendations := dg_recommendations d2 @
                                [(S ''Otimizar performance da implementa'' @ [0xE7, 0xE3] @ S ''o'')]\<rparr>
                         else d2);
               d4 = (case coverage t of
                       None \<Rightarrow> d3
                     | Some c \<Rightarrow>
                         if c \<noteq> 0 \<and> c < 70 then
                           d3\<lparr>issues := issues d3 @
                                [IssueDetail (S ''coverage'')
                                   ((S ''Cobertura baixa: '') @ js_int_string c @ (S ''%''))],
                              dg_recommendations := dg_recommendations d3 @
                                [(S ''Aumentar cobertura de testes'')]\<rparr>
                         else d3)
           in if subject_type subject = Some (S ''implementation'') then
                (case executionResult of
                   None \<Rightarrow> Inl (cannot_read ''undefined'' ''filesCreated'')
                 | Some e \<Rightarrow>
                     if length (filesCreated e) = 0 then
                       Inr (d4\<lparr>issues := issues d4 @
                                  [IssueDetail (S ''implementation'') (S ''Nenhum arquivo foi criado'')],
                                dg_recommendations := dg_recommendations d4 @
                                  [(S ''Verificar se a implementa'' @ [0xE7, 0xE3] @ S ''o foi executada corretamente'')]\<rparr>)
                     else Inr d4)
              else if subject_type subject = Some (S ''testing'') then
                (if length (failed t) > length (passed t) then
                   Inr (d4\<lparr>issues := issues d4 @
                              [IssueDetail (S ''testing'') (S ''Mais testes falharam do que passaram'')],
                            dg_recommendations := dg_recommendations d4 @
                              [(S ''Revisar e corrigir testes falhados'')]\<rparr>)
                 else Inr d4)
              else Inr d4))"

section \<open>The execution loop (orchestrator.js)\<close>

text \<open>
  The loop calls its collaborators in a fixed order: \<open>analyzer.execute\<close>,
  \<open>tester.test\<close>, then either \<open>tester.diagnose\<close> and \<open>analyzer.applyFix\<close>, or
  \<open>documentor.document\<close> and \<open>validator.validate\<close>. An \<open>attempt\<close> holds what each call
  of one turn gives (\<open>Some e\<close> or \<open>Inl e\<close>: the call throws \<open>e\<close>), as far as the loop reads
  it: of the check record \<open>hasErrors\<close> and \<open>errors\<close>, of the diagnosis the truthiness of
  \<open>canAutoFix\<close> and the property \<open>errors\<close> (\<open>None\<close>: \<open>undefined\<close>), of the validation
  result \<open>approved\<close> and \<open>reasons\<close>. \<open>clock\<close> is \<open>new Date().toISOString()\<close>.
\<close>

record attempt =
  execute_response :: "error option"
  test_response :: "error + bool \<times> jsstring list"
  diagnose_response :: "error + bool \<times> jsstring list option"
  applyFix_response :: "error option"
  document_response :: "error option"
  validate_response :: "error + bool \<times> jsstring list"
  clock :: jsstring

text \<open>How one turn of the inner loop's \<open>try\<close> block ends.\<close>

datatype turn = AutoFixed | StepCompleted orchestrator | Caught error

definition complete_step :: "jsstring \<Rightarrow> orchestrator \<Rightarrow> orchestrator" where
  "complete_step now orch =
     (let i = currentStepIndex orch;
          s = (taskSteps orch ! i)\<lparr>step_status := (S ''completed''), step_completedAt := Some now\<rparr>;
          orch1 = orch\<lparr>taskSteps := (taskSteps orch)[i := s]\<rparr>
      in if i + 1 < length (taskSteps orch1) then orch1\<lparr>currentStepIndex := i + 1\<rparr>
         else orch1)"

definition try_block :: "attempt \<Rightarrow> orchestrator \<Rightarrow> turn" where
  "try_block a orch =
     (case execute_response a of
        Some e \<Rightarrow> Caught e
      | None \<Rightarrow>
          (case test_response a of
             Inl e \<Rightarrow> Caught e
           | Inr (testHasErrors, testErrors) \<Rightarrow>
               if testHasErrors then
                 (case diagnose_response a of
                    Inl e \<Rightarrow> Caught e
                  | Inr (canAutoFix, diagnosticErrors) \<Rightarrow>
                      (case currentTask orch of
                         None \<Rightarrow> Caught (cannot_read ''null'' ''autoFix'')
                       | Some task \<Rightarrow>
                           if task_autoFix task \<and> canAutoFix then
                             (case applyFix_response a of
                                Some e \<Rightarrow> Caught e
                              | None \<Rightarrow> AutoFixed)
                           else
                             (case diagnosticErrors of
                                None \<Rightarrow> Caught (cannot_read ''undefined'' ''join'')
                              | Some es \<Rightarrow>
                                  Caught (Error ((S ''Erros que impedem a conclus'' @ [0xE3] @ S ''o: '')
                                                   @ js_join (S '', '') es)))))
               else
                 (case document_response a of
                    Some e \<Rightarrow> Caught e
                  | None \<Rightarrow>
                      (case validate_response a of
                         Inl e \<Rightarrow> Caught e
                       | Inr (isApproved, validationReasons) \<Rightarrow>
                           if isApproved then StepCompleted (complete_step (clock a) orch)
                           else Caught (Error ((S ''Valida'' @ [0xE7, 0xE3] @ S ''o falhou: '')
                                                 @ js_join (S '', '') validationReasons))))))"

text \<open>
  The \<open>catch\<close> block, entered with the incremented \<open>retryCount\<close>: at the ceiling it throws
  the step's failure; below it, it calls \<open>this.sleep(2000)\<close>. The class declares
  \<open>delay(ms)\<close> and no \<open>sleep\<close>, so that call throws a \<open>TypeError\<close>, which leaves the
  \<open>catch\<close> block and the loop.
\<close>

definition sleep :: "nat \<Rightarrow> error option" where
  "sleep ms = Some (missing_method ''sleep'')"

definition catch_block :: "error \<Rightarrow> int \<Rightarrow> orchestrator \<Rightarrow> error option" where
  "catch_block e retryCount orch =
     (if retryCount \<ge> maxRetries orch then
        Some (Error ((S ''N'' @ [0xE3] @ S ''o foi poss'' @ [0xED] @ S ''vel completar a etapa: '') @ error_message e))
      else sleep 2000)"

text \<open>
  The inner loop \<open>while (!stepCompleted && retryCount < this.maxRetries)\<close> for the current
  step. \<open>world n\<close> is the \<open>n\<close>-th attempt of the run, and \<open>executed\<close> lists, in order, the
  index of the step of every attempt made so far. A turn that completes the step leaves the
  loop (by the condition or by \<open>break\<close>); the loop goes round again only after an
  automatic fix; an error leaving the \<open>catch\<close> block ends the whole run. The result is the
  error thrown, if any, with the orchestrator and the attempts made.
\<close>

function stepLoop ::
  "(nat \<Rightarrow> attempt) \<Rightarrow> orchestrator \<Rightarrow> nat list \<Rightarrow> int
     \<Rightarrow> error option \<times> orchestrator \<times> nat list" where
  "stepLoop world orch executed retryCount =
     (if retryCount < maxRetries orch then
        (let executed1 = executed @ [currentStepIndex orch]
         in case try_block (world (length executed)) orch of
              AutoFixed \<Rightarrow> stepLoop world orch executed1 (retryCount + 1)
            | StepCompleted orch1 \<Rightarrow> (None, orch1, executed1)
            | Caught e \<Rightarrow>
                (case catch_block e (retryCount + 1) orch of
                   Some thrown \<Rightarrow> (Some thrown, orch, executed1)
                 | None \<Rightarrow> stepLoop world orch executed1 (retryCount + 1)))
      else (None, orch, executed))"
  by pat_completeness auto
termination
  by (relation "measure (\<lambda>(world, orch, executed, retryCount). nat (maxRetries orch - retryCount))")
     auto

declare stepLoop.simps [simp del]

text \<open>
  The outer loop \<open>while (this.currentStepIndex < this.taskSteps.length)\<close>. It need not
  end, so it runs on fuel, one unit for each turn: \<open>None\<close> says that the loop is still
  running when the fuel is spent.
\<close>

fun executeTaskLoop ::
  "nat \<Rightarrow> (nat \<Rightarrow> attempt) \<Rightarrow> orchestrator \<Rightarrow> nat list
     \<Rightarrow> (error option \<times> orchestrator \<times> nat list) option" where
  "executeTaskLoop 0 world orch executed = None"
| "executeTaskLoop (Suc fuel) world orch executed =
     (if currentStepIndex orch < length (taskSteps orch) then
        (case stepLoop world orch executed 0 of
           (Some thrown, orch1, executed1) \<Rightarrow> Some (Some thrown, orch1, executed1)
         | (None, orch1, executed1) \<Rightarrow> executeTaskLoop fuel world orch1 executed1)
      else Some (None, orch, executed))"

text \<open>An attempt in which every call returns and the validation approves.\<close>

definition approves :: "attempt \<Rightarrow> bool" where
  "approves a =
     (execute_response a = None \<and> map_sum id fst (test_response a) = Inr False
      \<and> document_response a = None \<and> map_sum id fst (validate_response a) = Inr True)"

section \<open>Concrete inputs\<close>

text \<open>The steps the planner makes for a general task, and an orchestrator about to run them.\<close>

definition general_steps :: "step list" where
  "general_steps =
     createTaskSteps [] \<lparr> taskType = (S ''general''), requiredSkills = [],
                           suggestedApproach = [], prerequisites = [] \<rparr>"

definition example_task :: task where
  "example_task =
     \<lparr> task_id = (S ''task_1700000000000''),
       task_description = (S ''organizar os arquivos do projeto''),
       task_priority = (S ''Alta''), task_autoFix = True,
       task_createdAt = (S ''2023-11-14T22:13:20.000Z''), task_status = (S ''pending'') \<rparr>"

definition running_orchestrator :: orchestrator where
  "running_orchestrator =
     (new_orchestrator None)\<lparr>currentTask := Some example_task, taskSteps := general_steps\<rparr>"

text \<open>An attempt in which every collaborator returns and the validation approves.\<close>

definition approved_attempt :: attempt where
  "approved_attempt =
     \<lparr> execute_response = None,
       test_response = Inr (False, []),
       diagnose_response = Inr (False, None),
       applyFix_response = None,
       document_response = None,
       validate_response = Inr (True, []),
       clock = (S ''2023-11-14T22:14:00.000Z'') \<rparr>"

text \<open>An attempt whose validation is rejected, and one whose execution throws.\<close>

definition rejected_attempt :: attempt where
  "rejected_attempt =
     approved_attempt\<lparr>validate_response := Inr (False, [fail_mark @ (S ''Execu'' @ [0xE7, 0xE3] @ S ''o completada'')])\<rparr>"

definition failed_execution_attempt :: attempt where
  "failed_execution_attempt =
     approved_attempt\<lparr>execute_response := Some (Error (S ''ENOENT: no such file or directory''))\<rparr>"

definition documentation_step :: xstep where
  "documentation_step =
     (planned_step (createTaskSteps [] \<lparr> taskType = (S ''documentation''), requiredSkills = [],
          suggestedApproach = [], prerequisites = [] \<rparr> ! 1))\<lparr>updateReadme := True\<rparr>"

definition empty_execution :: executionResult where
  "empty_execution =
     \<lparr> er_deliverables = None, filesCreated = [], filesModified = [], fixApplied = None,
       originalProblemSolved = None, verificationResult = None, codeQualityImproved = None,
       fileStructureOptimized = None, testCasesCreated = None, testReport = IsUndefined,
       er_testsPassed = None, er_coverage = None, documentationUpdated = None,
       readmeUpdated = None, codeCommentsUpdated = None, examplesIncluded = None,
       documentationFiles = None, validationPerformed = None, criteriasMet = None,
       validationReport = IsUndefined, completed = None, objectivesAchieved = None,
       executionTime = None, memoryUsage = None, logs = None, backupCreated = None,
       functionsImplemented = None, testsCreated = None, dependenciesInstalled = None \<rparr>"

definition empty_check_record :: testResult where
  "empty_check_record =
     \<lparr> tr_stepId = 2, testType = (S ''documentation''), startTime = (S ''2025-01-01T00:00:00.000Z''),
       hasErrors = False, errors = [], warnings = [], passed = [], failed = [],
       coverage = None, performance_executionTime = None, tr_recommendations = [],
       canProceed = False, endTime = None, testsPassed = None \<rparr>"

text \<open>
  The investigation step and the fix step of a bug-fix task, with execution records for
  them: an investigation that found everything but the root cause, and a fix for which
  every criterion passes.
\<close>

definition bugfix_steps :: "step list" where
  "bugfix_steps =
     createTaskSteps [] \<lparr> taskType = (S ''bugfix''), requiredSkills = [],
                           suggestedApproach = [], prerequisites = [] \<rparr>"

definition investigation_step :: xstep where
  "investigation_step = planned_step (bugfix_steps ! 1)"

definition fix_step :: xstep where
  "fix_step = planned_step (bugfix_steps ! 2)"

definition investigation_without_root_cause :: executionResult where
  "investigation_without_root_cause =
     empty_execution
       \<lparr> er_deliverables := Some
           \<lparr> d_requirements = Absent, d_dependencyCheck = Absent, d_fileStructure = Absent,
             d_technologies = Absent, d_dependencies = Absent,
             d_errorAnalysis = Present \<lparr> stackTrace = Present (S ''at handler (api.js:10:5)''),
                                         errorMessage = Present (S ''x is null'') \<rparr>,
             d_reproduction = Present (), d_rootCause = Absent,
             d_proposedSolution = Present (), d_other = [] \<rparr> \<rparr>"

definition successful_fix :: executionResult where
  "successful_fix = empty_execution\<lparr>fixApplied := Some True, originalProblemSolved := Some True\<rparr>"

definition clean_check_record :: testResult where
  "clean_check_record = empty_check_record\<lparr>canProceed := True\<rparr>"

definition empty_environment :: environment where
  "empty_environment = \<lparr> files = Map.empty, npm_list = (\<lambda>d. False) \<rparr>"

definition new_validator :: validator where
  "new_validator = \<lparr> validationHistory = [] \<rparr>"

text \<open>
  The analysis step of a general task, with an execution that reports a missing
  dependency, and a world in which \<open>npm list\<close> finds every package.
\<close>

definition analysis_step :: xstep where
  "analysis_step = planned_step (general_steps ! 0)"

definition analysis_with_missing_dependency :: executionResult where
  "analysis_with_missing_dependency =
     empty_execution
       \<lparr> er_deliverables := Some
           \<lparr> d_requirements = Present [(S ''listar os arquivos'')],
             d_dependencyCheck = Present \<lparr> missing = Present [(S ''express'')] \<rparr>,
             d_fileStructure = Present [(S ''src'')], d_technologies = Absent,
             d_dependencies = Absent, d_errorAnalysis = Absent, d_reproduction = Absent,
             d_rootCause = Absent, d_proposedSolution = Absent, d_other = [] \<rparr> \<rparr>"

definition installed_environment :: environment where
  "installed_environment = \<lparr> files = Map.empty, npm_list = (\<lambda>d. True) \<rparr>"

section \<open>Facts about the string model\<close>

lemma S_eq_iff [simp]: "S a = S b \<longleftrightarrow> a = b"
  by (simp add: S_def inj_map_eq_map inj_on_def)

lemma S_Nil [simp]: "S [] = []"
  by (simp add: S_def)

lemma S_eq_Nil [simp]: "S a = [] \<longleftrightarrow> a = []"
  by (simp add: S_def)

lemma S_Cons: "S (c # cs) = of_char c # S cs"
  by (simp add: S_def)

lemma js_trim_length_le: "length (js_trim s) \<le> length s"
proof -
  have "length (js_trim s) = length (dropWhile is_js_space (rev (dropWhile is_js_space s)))"
    by (simp add: js_trim_def)
  also have "\<dots> \<le> length (rev (dropWhile is_js_space s))"
    by (rule length_dropWhile_le)
  also have "\<dots> \<le> length s"
    by (simp add: length_dropWhile_le)
  finally show ?thesis .
qed

section \<open>The planner\<close>

text \<open>
  C7. Whatever the task type and the languages found, the list that \<open>createTaskSteps\<close>
  builds is not empty, its ids are 1, 2, ..., N in this order, its only step of type
  \<open>analysis\<close> is the first one and its only step of type \<open>validation\<close> is the last one.
  The six classifications are the values of \<open>taskType\<close> that choose a block; any other
  value takes the general block.
\<close>

theorem createTaskSteps_contiguous:
  "createTaskSteps langs a \<noteq> []
   \<and> map step_id (createTaskSteps langs a) = [1 ..< length (createTaskSteps langs a) + 1]
   \<and> filter (\<lambda>s. step_type s = (S ''analysis'')) (createTaskSteps langs a)
       = [hd (createTaskSteps langs a)]
   \<and> filter (\<lambda>s. step_type s = (S ''validation'')) (createTaskSteps langs a)
       = [last (createTaskSteps langs a)]"
  by (simp add: createTaskSteps_def middle_steps_def Let_def createCreationSteps_def
      createBugfixSteps_def createImprovementSteps_def createTestingSteps_def
      createDocumentationSteps_def createGeneralSteps_def upt_rec)

text \<open>The kinds of the steps, for each of the six classifications.\<close>

lemma createTaskSteps_kinds:
  "map step_type (createTaskSteps langs (a\<lparr>taskType := (S ''creation'')\<rparr>))
     = [(S ''analysis''), (S ''implementation''), (S ''validation'')]"
  "map step_type (createTaskSteps langs (a\<lparr>taskType := (S ''bugfix'')\<rparr>))
     = [(S ''analysis''), (S ''investigation''), (S ''fix''), (S ''validation'')]"
  "map step_type (createTaskSteps langs (a\<lparr>taskType := (S ''improvement'')\<rparr>))
     = [(S ''analysis''), (S ''refactor''), (S ''validation'')]"
  "map step_type (createTaskSteps langs (a\<lparr>taskType := (S ''testing'')\<rparr>))
     = [(S ''analysis''), (S ''testing''), (S ''validation'')]"
  "map step_type (createTaskSteps langs (a\<lparr>taskType := (S ''documentation'')\<rparr>))
     = [(S ''analysis''), (S ''documentation''), (S ''validation'')]"
  "map step_type (createTaskSteps langs (a\<lparr>taskType := (S ''general'')\<rparr>))
     = [(S ''analysis''), (S ''general''), (S ''validation'')]"
  by (simp_all add: createTaskSteps_def middle_steps_def Let_def createCreationSteps_def
      createBugfixSteps_def createImprovementSteps_def createTestingSteps_def
      createDocumentationSteps_def createGeneralSteps_def)

text \<open>
  C8, as the claim states it, fails: \<open>orchestrateTask\<close> has no check of the description's
  length and no error called \<open>InvalidTask\<close>. What it throws for the empty description is
  the \<open>TypeError\<close> of the call of \<open>identifyTaskType\<close>, and it throws the same for a long
  description.
\<close>

theorem orchestrateTask_empty_description_counterexample:
  "fst (orchestrateTask (new_orchestrator None)
          \<lparr> task_id = (S ''task_1''), task_description = [], task_priority = (S ''Alta''),
            task_autoFix = True, task_createdAt = (S ''2025-01-01T00:00:00.000Z''),
            task_status = (S ''pending'') \<rparr>)
     = Some (TypeError (S ''this.identifyTaskType is not a function''))
   \<and> error_name (TypeError (S ''this.identifyTaskType is not a function'')) \<noteq> (S ''InvalidTask'')
   \<and> fst (orchestrateTask (new_orchestrator None)
          \<lparr> task_id = (S ''task_1''), task_description = (S ''corrigir o erro de login da API''),
            task_priority = (S ''Alta''), task_autoFix = True,
            task_createdAt = (S ''2025-01-01T00:00:00.000Z''), task_status = (S ''pending'') \<rparr>)
     = Some (TypeError (S ''this.identifyTaskType is not a function''))"
  by (simp add: orchestrateTask_def analyzeTaskInContext_def identifyTaskType_def
      missing_method_def S_def)

text \<open>
  Whatever the orchestrator and the task, \<open>orchestrateTask\<close> ends with the error of the
  call of \<open>identifyTaskType\<close>; the description plays no part in it.
\<close>

lemma orchestrateTask_throws:
  "fst (orchestrateTask orch t) = Some (missing_method ''identifyTaskType'')"
  by (simp add: orchestrateTask_def analyzeTaskInContext_def identifyTaskType_def)

lemma missing_method_name: "error_name (missing_method m) = (S ''TypeError'')"
  by (simp add: missing_method_def)

text \<open>
  C8, amended. A description whose trimmed length is at most ten (the empty one
  included) is refused by the \<open>validate\<close> function that \<open>requestTaskFromUser\<close> gives to the
  description question: it returns the message instead of \<open>true\<close>. \<open>orchestrateTask\<close> has
  no check of the length: for every orchestrator and every task, the error it ends with
  is not an \<open>InvalidTask\<close>, and it is the same whatever the description is.
\<close>

theorem short_description_refused:
  assumes "length (js_trim d) \<le> 10"
  shows "description_validate d = Refused (S ''Por favor, descreva a tarefa com mais detalhes'')
    \<and> map_option error_name (fst (orchestrateTask orch t)) \<noteq> Some (S ''InvalidTask'')
    \<and> fst (orchestrateTask orch (t\<lparr>task_description := d\<rparr>))
        = fst (orchestrateTask orch (t\<lparr>task_description := d'\<rparr>))"
proof -
  have refused: "description_validate d = Refused (S ''Por favor, descreva a tarefa com mais detalhes'')"
    using assms by (simp add: description_validate_def)
  have other: "map_option error_name (fst (orchestrateTask orch t)) \<noteq> Some (S ''InvalidTask'')"
    by (simp add: orchestrateTask_throws missing_method_name)
  have same: "fst (orchestrateTask orch (t\<lparr>task_description := d\<rparr>))
      = fst (orchestrateTask orch (t\<lparr>task_description := d'\<rparr>))"
    by (simp add: orchestrateTask_throws)
  from refused other same show ?thesis by blast
qed

theorem short_description_refused_witness:
  "length (js_trim (S ''  fix bug  '')) \<le> 10
   \<and> description_validate (S ''  fix bug  '')
       = Refused (S ''Por favor, descreva a tarefa com mais detalhes'')
   \<and> description_validate (S ''corrigir o erro de login da API'') = Accepted
   \<and> map_option error_name (fst (orchestrateTask (new_orchestrator None) example_task))
       \<noteq> Some (S ''InvalidTask'')
   \<and> fst (orchestrateTask (new_orchestrator None)
             (example_task\<lparr>task_description := (S ''  fix bug  '')\<rparr>))
       = fst (orchestrateTask (new_orchestrator None)
             (example_task\<lparr>task_description := (S ''corrigir o erro de login da API'')\<rparr>))"
proof -
  have short: "length (js_trim (S ''  fix bug  '')) \<le> 10"
    by (simp add: js_trim_def is_js_space_def S_def)
  have long: "description_validate (S ''corrigir o erro de login da API'') = Accepted"
    by (simp add: description_validate_def js_trim_def is_js_space_def S_def)
  from short_description_refused [OF short, of "new_orchestrator None" example_task
      "(S ''corrigir o erro de login da API'')"] short long
  show ?thesis by blast
qed

section \<open>The check runner\<close>

lemma run_check_failed_mono: "set (failed tr) \<subseteq> set (failed (run_check c tr))"
  by (auto simp: run_check_def Let_def split: sum.splits)

lemma run_check_warnings_mono: "set (warnings tr) \<subseteq> set (warnings (run_check c tr))"
  by (auto simp: run_check_def Let_def split: sum.splits)

lemma runTestSuite_failed_mono: "set (failed tr) \<subseteq> set (failed (runTestSuite cs tr))"
proof (induction cs arbitrary: tr)
  case Nil
  then show ?case by simp
next
  case (Cons c cs)
  have "set (failed tr) \<subseteq> set (failed (run_check c tr))"
    by (rule run_check_failed_mono)
  also have "\<dots> \<subseteq> set (failed (runTestSuite cs (run_check c tr)))"
    by (rule Cons.IH)
  finally show ?case by simp
qed

lemma runTestSuite_warnings_mono: "set (warnings tr) \<subseteq> set (warnings (runTestSuite cs tr))"
proof (induction cs arbitrary: tr)
  case Nil
  then show ?case by simp
next
  case (Cons c cs)
  have "set (warnings tr) \<subseteq> set (warnings (run_check c tr))"
    by (rule run_check_warnings_mono)
  also have "\<dots> \<subseteq> set (warnings (runTestSuite cs (run_check c tr)))"
    by (rule Cons.IH)
  finally show ?case by simp
qed

lemma run_check_false_failed:
  "t_test c = Inr False \<Longrightarrow> t_name c \<in> set (failed (run_check c tr))"
  by (simp add: run_check_def Let_def)

lemma run_check_false_warning:
  "t_test c = Inr False \<Longrightarrow> \<not> t_critical c \<Longrightarrow> t_name c \<in> set (warnings (run_check c tr))"
  by (simp add: run_check_def Let_def)

lemma runTestSuite_false_failed:
  "c \<in> set cs \<Longrightarrow> t_test c = Inr False \<Longrightarrow> t_name c \<in> set (failed (runTestSuite cs tr))"
proof (induction cs arbitrary: tr)
  case Nil
  then show ?case by simp
next
  case (Cons x xs)
  show ?case
  proof (cases "c = x")
    case True
    with Cons.prems have "t_name c \<in> set (failed (run_check x tr))"
      by (simp add: run_check_false_failed)
    then show ?thesis
      using runTestSuite_failed_mono [of "run_check x tr" xs] by auto
  next
    case False
    with Cons.prems have "c \<in> set xs" by simp
    from Cons.IH [OF this Cons.prems(2)] show ?thesis by simp
  qed
qed

lemma runTestSuite_false_warning:
  "c \<in> set cs \<Longrightarrow> t_test c = Inr False \<Longrightarrow> \<not> t_critical c \<Longrightarrow>
     t_name c \<in> set (warnings (runTestSuite cs tr))"
proof (induction cs arbitrary: tr)
  case Nil
  then show ?case by simp
next
  case (Cons x xs)
  show ?case
  proof (cases "c = x")
    case True
    with Cons.prems have "t_name c \<in> set (warnings (run_check x tr))"
      by (simp add: run_check_false_warning)
    then show ?thesis
      using runTestSuite_warnings_mono [of "run_check x tr" xs] by auto
  next
    case False
    with Cons.prems have "c \<in> set xs" by simp
    from Cons.IH [OF this Cons.prems(2) Cons.prems(3)] show ?thesis by simp
  qed
qed

lemma final_verification_flags:
  "hasErrors (final_verification now tr) = (errors tr \<noteq> [] \<or> failed tr \<noteq> [])"
  "canProceed (final_verification now tr) = (\<not> hasErrors (final_verification now tr))"
  "errors (final_verification now tr) = errors tr"
  "failed (final_verification now tr) = failed tr"
  "warnings (final_verification now tr) = warnings tr"
  by (simp_all add: final_verification_def Let_def)

text \<open>
  C10. In a battery run by \<open>runTestSuite\<close>, a check whose test evaluates false has its
  name in the record's \<open>failed\<close> list, also when it is not critical (its name is then in
  \<open>warnings\<close> as well); and the final verification of \<open>test\<close>, after this battery and any
  battery \<open>later\<close> run on the same record, sets \<open>hasErrors\<close> and clears \<open>canProceed\<close>.
\<close>

theorem failed_check_blocks:
  assumes "c \<in> set cs" and "t_test c = Inr False"
  shows "t_name c \<in> set (failed (runTestSuite cs tr))
    \<and> (t_critical c \<or> t_name c \<in> set (warnings (runTestSuite cs tr)))
    \<and> hasErrors (final_verification now (runTestSuite later (runTestSuite cs tr)))
    \<and> \<not> canProceed (final_verification now (runTestSuite later (runTestSuite cs tr)))"
proof -
  have in_failed: "t_name c \<in> set (failed (runTestSuite cs tr))"
    using assms by (rule runTestSuite_false_failed)
  have in_warnings: "t_critical c \<or> t_name c \<in> set (warnings (runTestSuite cs tr))"
    using assms runTestSuite_false_warning by blast
  have "t_name c \<in> set (failed (runTestSuite later (runTestSuite cs tr)))"
    using in_failed runTestSuite_failed_mono [of "runTestSuite cs tr" later] by auto
  then have "failed (runTestSuite later (runTestSuite cs tr)) \<noteq> []"
    by auto
  then have blocked: "hasErrors (final_verification now (runTestSuite later (runTestSuite cs tr)))"
    by (simp add: final_verification_flags)
  then have "\<not> canProceed (final_verification now (runTestSuite later (runTestSuite cs tr)))"
    by (simp add: final_verification_flags)
  with in_failed in_warnings blocked show ?thesis by blast
qed

text \<open>
  The witness is a documentation step that asks for the README, run through \<open>test\<close>'s
  dispatch and final verification: the documentation was updated and the comments are
  fine, only the README check (not critical) fails.
\<close>

theorem failed_check_blocks_witness:
  "test_checked (S ''2025-01-01T00:00:00.000Z'') (S ''2025-01-01T00:00:01.000Z'') Inr documentation_step
     (empty_execution\<lparr>documentationUpdated := Some True\<rparr>)
   = Inr (empty_check_record
           \<lparr> hasErrors := True,
             warnings := [(S ''README atualizado se necess'' @ [0xE1] @ S ''rio'')],
             passed := [(S ''Documenta'' @ [0xE7, 0xE3] @ S ''o foi criada/atualizada''), (S ''Coment'' @ [0xE1] @ S ''rios no c'' @ [0xF3] @ S ''digo atualizados'')],
             failed := [(S ''README atualizado se necess'' @ [0xE1] @ S ''rio'')],
             endTime := Some (S ''2025-01-01T00:00:01.000Z'') \<rparr>)
   \<and> hasErrors (final_verification (S ''2025-01-01T00:00:01.000Z'')
        (runTestSuite []
          (runTestSuite
            [\<lparr> t_name = (S ''README atualizado se necess'' @ [0xE1] @ S ''rio''), t_test = Inr False,
               t_critical = False \<rparr>] empty_check_record)))
   \<and> \<not> canProceed (final_verification (S ''2025-01-01T00:00:01.000Z'')
        (runTestSuite []
          (runTestSuite
            [\<lparr> t_name = (S ''README atualizado se necess'' @ [0xE1] @ S ''rio''), t_test = Inr False,
               t_critical = False \<rparr>] empty_check_record)))"
proof -
  have run: "test_checked (S ''2025-01-01T00:00:00.000Z'') (S ''2025-01-01T00:00:01.000Z'') Inr
      documentation_step (empty_execution\<lparr>documentationUpdated := Some True\<rparr>)
    = Inr (empty_check_record
           \<lparr> hasErrors := True,
             warnings := [(S ''README atualizado se necess'' @ [0xE1] @ S ''rio'')],
             passed := [(S ''Documenta'' @ [0xE7, 0xE3] @ S ''o foi criada/atualizada''), (S ''Coment'' @ [0xE1] @ S ''rios no c'' @ [0xF3] @ S ''digo atualizados'')],
             failed := [(S ''README atualizado se necess'' @ [0xE1] @ S ''rio'')],
             endTime := Some (S ''2025-01-01T00:00:01.000Z'') \<rparr>)"
    by (simp add: test_checked_def documentation_step_def planned_step_def createTaskSteps_def
        middle_steps_def createDocumentationSteps_def Let_def testDocumentation_def
        run_check_def final_verification_def empty_execution_def empty_check_record_def
        step.extend_def)
  have "\<lparr> t_name = (S ''README atualizado se necess'' @ [0xE1] @ S ''rio''), t_test = Inr False, t_critical = False \<rparr>
      \<in> set [\<lparr> t_name = (S ''README atualizado se necess'' @ [0xE1] @ S ''rio''), t_test = Inr False,
                t_critical = False \<rparr>]"
    by simp
  from failed_check_blocks [OF this, of empty_check_record "(S ''2025-01-01T00:00:01.000Z'')" "[]"] run
  show ?thesis by simp
qed

text \<open>
  \<open>test\<close> itself never returns the record: whatever the step and the execution, the call
  ends with an error thrown (by the missing method of the step's kind, by
  \<open>testImplementation\<close>, or by the missing \<open>calculateDuration\<close>).
\<close>

lemma test_never_returns: "test start now impl s e \<noteq> Inr r"
  by (simp add: test_def calculateDuration_def split: sum.splits)

section \<open>The diagnoser\<close>

text \<open>
  C4. The orchestrator calls \<open>tester.diagnose(testResult.errors)\<close>. The method that
  answers is the second definition, whose third parameter is then \<open>undefined\<close>: reading
  \<open>testResult.errors\<close> throws, whatever the error list, and no diagnosis is returned.
\<close>

theorem diagnose_error_list_throws:
  "diagnose now (SubjectErrors es) None None
     = Inl (TypeError (S ''Cannot read properties of undefined (reading '' @ [0x27] @ S ''errors'' @ [0x27] @ S '')''))"
  by (simp add: diagnose_def cannot_read_def S_def)

section \<open>The execution loop\<close>

lemma complete_step_maxRetries [simp]: "maxRetries (complete_step now orch) = maxRetries orch"
  by (simp add: complete_step_def Let_def)

text \<open>
  Completing a step moves the cursor only when a next step exists: after the last step
  the cursor still points into the list.
\<close>

lemma complete_step_cursor:
  "currentStepIndex orch < length (taskSteps orch) \<Longrightarrow>
     currentStepIndex (complete_step now orch) < length (taskSteps (complete_step now orch))"
  by (simp add: complete_step_def Let_def)

lemma try_block_approves:
  "approves a \<Longrightarrow> try_block a orch = StepCompleted (complete_step (clock a) orch)"
  by (cases "test_response a"; cases "validate_response a")
     (auto simp: approves_def try_block_def)

lemma stepLoop_approves:
  assumes "approves (world (length executed))" and "0 < maxRetries orch"
  shows "stepLoop world orch executed 0
    = (None, complete_step (clock (world (length executed))) orch,
       executed @ [currentStepIndex orch])"
  using assms by (subst stepLoop.simps) (simp add: try_block_approves Let_def)

lemma executeTaskLoop_approved_runs_on:
  assumes "\<And>n. approves (world n)" and "0 < maxRetries orch"
    and "currentStepIndex orch < length (taskSteps orch)"
  shows "executeTaskLoop fuel world orch executed = None"
  using assms(2,3)
proof (induction fuel arbitrary: orch executed)
  case 0
  then show ?case by simp
next
  case (Suc fuel)
  let ?orch1 = "complete_step (clock (world (length executed))) orch"
  have step: "stepLoop world orch executed 0 = (None, ?orch1, executed @ [currentStepIndex orch])"
    using assms(1) Suc.prems(1) by (rule stepLoop_approves)
  have "executeTaskLoop fuel world ?orch1 (executed @ [currentStepIndex orch]) = None"
    using Suc.prems by (intro Suc.IH) (simp_all add: complete_step_cursor)
  with Suc.prems step show ?case by simp
qed

lemma running_orchestrator_facts:
  "maxRetries running_orchestrator = 3"
  "currentStepIndex running_orchestrator = 0"
  "length (taskSteps running_orchestrator) = 3"
  "currentTask running_orchestrator = Some example_task"
  by (simp_all add: running_orchestrator_def new_orchestrator_def general_steps_def
      createTaskSteps_def middle_steps_def createGeneralSteps_def Let_def)

text \<open>
  C2. The planner's three steps for a general task, ceiling 3, every attempt approved:
  whatever the fuel, the loop is still running when it is spent. It never returns, so it
  never reaches the end that \<open>start\<close> reports as success.
\<close>

theorem executeTaskLoop_all_approved_never_returns:
  "executeTaskLoop fuel (\<lambda>n. approved_attempt) running_orchestrator [] = None"
proof (rule executeTaskLoop_approved_runs_on)
  show "approves approved_attempt" for n :: nat
    by (simp add: approves_def approved_attempt_def)
  show "0 < maxRetries running_orchestrator"
    by (simp add: running_orchestrator_facts)
  show "currentStepIndex running_orchestrator < length (taskSteps running_orchestrator)"
    by (simp add: running_orchestrator_facts)
qed

text \<open>
  An attempt that ends in the \<open>catch\<close> block below the ceiling ends the run with the
  \<open>TypeError\<close> of \<open>this.sleep\<close>: there is no second attempt.
\<close>

lemma stepLoop_caught_below_ceiling:
  assumes "try_block (world (length executed)) orch = Caught e"
    and "retryCount + 1 < maxRetries orch"
  shows "stepLoop world orch executed retryCount
    = (Some (TypeError (S ''this.sleep is not a function'')), orch,
       executed @ [currentStepIndex orch])"
  using assms
  by (subst stepLoop.simps)
     (simp add: Let_def catch_block_def sleep_def missing_method_def S_def)

text \<open>
  The attempts one run of the inner loop makes never outnumber the retries left: the
  counter stays within the ceiling.
\<close>

lemma stepLoop_attempts_bounded:
  "stepLoop world orch executed retryCount = (r, orch1, executed1) \<Longrightarrow>
     int (length executed1) \<le> int (length executed) + max 0 (maxRetries orch - retryCount)"
proof (induction world orch executed retryCount arbitrary: r orch1 executed1
    rule: stepLoop.induct)
  case (1 world orch executed retryCount)
  show ?case
  proof (cases "retryCount < maxRetries orch")
    case False
    with "1.prems" show ?thesis
      by (subst (asm) stepLoop.simps) auto
  next
    case True
    note below = this
    show ?thesis
    proof (cases "try_block (world (length executed)) orch")
      case AutoFixed
      with below "1.prems"
      have again: "stepLoop world orch (executed @ [currentStepIndex orch]) (retryCount + 1)
          = (r, orch1, executed1)"
        by (subst (asm) stepLoop.simps) (simp add: Let_def)
      from "1.IH"(1) [OF below refl AutoFixed again] below show ?thesis
        by simp
    next
      case (StepCompleted o1)
      with below "1.prems" show ?thesis
        by (subst (asm) stepLoop.simps) (auto simp: Let_def)
    next
      case (Caught e)
      with below "1.prems" show ?thesis
        by (subst (asm) stepLoop.simps)
           (auto simp: Let_def catch_block_def sleep_def split: if_splits)
    qed
  qed
qed

text \<open>
  C5. Ceiling 3; the first attempt at the first step fails with an execution error. The
  retry branch raises the \<open>TypeError\<close> of the missing \<open>sleep\<close>: the run ends with it, after
  one attempt, the step is not attempted again and nothing has changed in the
  orchestrator.
\<close>

theorem retry_branch_raises:
  "executeTaskLoop (Suc fuel) (\<lambda>n. failed_execution_attempt) running_orchestrator []
     = Some (Some (TypeError (S ''this.sleep is not a function'')), running_orchestrator, [0])"
proof -
  have "try_block failed_execution_attempt running_orchestrator
      = Caught (Error (S ''ENOENT: no such file or directory''))"
    by (simp add: try_block_def failed_execution_attempt_def approved_attempt_def)
  then have "stepLoop (\<lambda>n. failed_execution_attempt) running_orchestrator [] 0
      = (Some (TypeError (S ''this.sleep is not a function'')), running_orchestrator,
         [] @ [currentStepIndex running_orchestrator])"
    by (intro stepLoop_caught_below_ceiling) (simp_all add: running_orchestrator_facts)
  then show ?thesis
    by (simp add: running_orchestrator_facts)
qed

text \<open>
  C3. Ceiling 3; every validation of the first step is rejected. The run ends on the
  first rejection, with the \<open>TypeError\<close> of the missing \<open>sleep\<close> and one attempt made: the
  second and the third attempt of the scenario never take place.
\<close>

theorem first_rejection_aborts:
  "executeTaskLoop (Suc fuel) (\<lambda>n. rejected_attempt) running_orchestrator []
     = Some (Some (TypeError (S ''this.sleep is not a function'')), running_orchestrator, [0])"
proof -
  have "try_block rejected_attempt running_orchestrator
      = Caught (Error ((S ''Valida'' @ [0xE7, 0xE3] @ S ''o falhou: '') @ fail_mark @ (S ''Execu'' @ [0xE7, 0xE3] @ S ''o completada'')))"
    by (simp add: try_block_def rejected_attempt_def approved_attempt_def)
  then have "stepLoop (\<lambda>n. rejected_attempt) running_orchestrator [] 0
      = (Some (TypeError (S ''this.sleep is not a function'')), running_orchestrator,
         [] @ [currentStepIndex running_orchestrator])"
    by (intro stepLoop_caught_below_ceiling) (simp_all add: running_orchestrator_facts)
  then show ?thesis
    by (simp add: running_orchestrator_facts)
qed

section \<open>The validation gate\<close>

subsection \<open>What each stage of \<open>validate\<close> does to the fields\<close>

lemma general_checks_fields [simp]:
  "qualityScore (check_executionTime e vr) = qualityScore vr"
  "timestamp (check_executionTime e vr) = timestamp vr"
  "qualityScore (check_memoryUsage e vr) = qualityScore vr"
  "timestamp (check_memoryUsage e vr) = timestamp vr"
  "qualityScore (check_logs e vr) = qualityScore vr"
  "timestamp (check_logs e vr) = timestamp vr"
  "qualityScore (check_deliverables e vr) = qualityScore vr"
  "timestamp (check_deliverables e vr) = timestamp vr"
  "qualityScore (check_backup e vr) = qualityScore vr"
  "timestamp (check_backup e vr) = timestamp vr"
  by (simp_all add: check_executionTime_def check_memoryUsage_def check_logs_def
      check_deliverables_def check_backup_def push_reason_def push_recommendation_def
      split: option.splits)

lemma performGeneralValidation_fields [simp]:
  "qualityScore (performGeneralValidation s e t vr) = qualityScore vr"
  "timestamp (performGeneralValidation s e t vr) = timestamp vr"
  by (simp_all add: performGeneralValidation_def)

lemma calculateFinalApproval_fields [simp]:
  "approved (calculateFinalApproval vr)
     = (\<not> list_ex (\<lambda>r. js_includes r [0x274C] \<and> js_includes r (S ''CR'' @ [0xCD] @ S ''TICO'')) (reasons vr)
        \<and> 70 \<le> qualityScore vr)"
  "qualityScore (calculateFinalApproval vr) = qualityScore vr"
  "reasons (calculateFinalApproval vr) = reasons vr"
  "timestamp (calculateFinalApproval vr) = timestamp vr"
  by (simp_all add: calculateFinalApproval_def assign_approval_def final_confidence_def
      score_recommendations_def Let_def push_recommendation_def)

lemma checkNextStepReadiness_fields [simp]:
  "approved (checkNextStepReadiness s vr) = approved vr"
  "qualityScore (checkNextStepReadiness s vr) = qualityScore vr"
  "reasons (checkNextStepReadiness s vr) = reasons vr"
  "timestamp (checkNextStepReadiness s vr) = timestamp vr"
  by (simp_all add: checkNextStepReadiness_def Let_def push_recommendation_def)

lemma checkNextStepReadiness_next:
  "nextStepApproved (checkNextStepReadiness s vr)
     = (approved vr \<and>
        (if step_type s = (S ''analysis'') then 80 \<le> qualityScore vr
         else if step_type s = (S ''implementation'') then
           list_ex (\<lambda>r. js_includes r [0x2705] \<and> js_includes r (S ''Funcionalidade'')) (reasons vr)
         else if step_type s = (S ''fix'') then
           list_ex (\<lambda>r. js_includes r [0x2705] \<and> js_includes r (S ''problema original'')) (reasons vr)
         else True))"
  by (simp add: checkNextStepReadiness_def Let_def push_recommendation_def)

text \<open>
  The approval that \<open>validate\<close> computes: the score reaches 70 and no reason holds both
  the cross mark and the word that \<open>calculateFinalApproval\<close> looks for.
\<close>

lemma validate_approved:
  "approved (fst (validate now env v s e t))
     = (70 \<le> qualityScore (validate_by_type env s e t (initial_result now s))
        \<and> \<not> list_ex (\<lambda>r. js_includes r [0x274C] \<and> js_includes r (S ''CR'' @ [0xCD] @ S ''TICO''))
              (reasons (performGeneralValidation s e t
                          (validate_by_type env s e t (initial_result now s)))))"
  by (auto simp: validate_def Let_def)

lemma validate_qualityScore:
  "qualityScore (fst (validate now env v s e t))
     = qualityScore (validate_by_type env s e t (initial_result now s))"
  by (simp add: validate_def Let_def)

lemma validate_reasons:
  "reasons (fst (validate now env v s e t))
     = reasons (performGeneralValidation s e t
                  (validate_by_type env s e t (initial_result now s)))"
  by (simp add: validate_def Let_def)


lemma evaluateCriteria_fields:
  "reasons (evaluateCriteria cs vr)
     = snd (criteria_loop cs (\<lparr>totalWeight = 0, achievedWeight = 0, criticalFailures = 0\<rparr>,
                              reasons vr))"
  "qualityScore (evaluateCriteria cs vr)
     = (if totalWeight (fst (criteria_loop cs
             (\<lparr>totalWeight = 0, achievedWeight = 0, criticalFailures = 0\<rparr>, reasons vr))) > 0
        then js_round_percent
          (achievedWeight (fst (criteria_loop cs
             (\<lparr>totalWeight = 0, achievedWeight = 0, criticalFailures = 0\<rparr>, reasons vr))))
          (totalWeight (fst (criteria_loop cs
             (\<lparr>totalWeight = 0, achievedWeight = 0, criticalFailures = 0\<rparr>, reasons vr))))
        else 0)"
  "timestamp (evaluateCriteria cs vr) = timestamp vr"
  by (simp_all add: evaluateCriteria_def Let_def split: prod.splits)

lemma example_step_facts:
  "step_type investigation_step = (S ''investigation'')"
  "step_type fix_step = (S ''fix'')"
  "originalError fix_step = None"
  by (simp_all add: investigation_step_def fix_step_def planned_step_def bugfix_steps_def
      createTaskSteps_def middle_steps_def createBugfixSteps_def Let_def step.extend_def)

lemma investigation_example_rubric:
  "investigation_criteria investigation_without_root_cause clean_check_record =
    [\<lparr>c_name = (S ''An'' @ [0xE1] @ S ''lise de erros completa''), c_check = Inr True, c_weight = 30,
      c_critical = True\<rparr>,
     \<lparr>c_name = (S ''Problema reproduzido''), c_check = Inr True, c_weight = 25, c_critical = True\<rparr>,
     \<lparr>c_name = (S ''Causa raiz identificada''), c_check = Inr False, c_weight = 25,
      c_critical = True\<rparr>,
     \<lparr>c_name = (S ''Solu'' @ [0xE7, 0xE3] @ S ''o proposta''), c_check = Inr True, c_weight = 20, c_critical = False\<rparr>]"
  by (simp add: investigation_criteria_def deliverable_defined_def
      investigation_without_root_cause_def empty_execution_def is_defined_def)

lemma investigation_example_by_type:
  "validate_by_type empty_environment investigation_step investigation_without_root_cause
     clean_check_record vr
   = evaluateCriteria
       (investigation_criteria investigation_without_root_cause clean_check_record) vr"
  by (simp add: validate_by_type_def example_step_facts validateInvestigation_def Let_def
      investigation_without_root_cause_def empty_execution_def truthy_text_def)

lemma investigation_example_general:
  "performGeneralValidation investigation_step investigation_without_root_cause
     clean_check_record vr = vr"
  by (simp add: performGeneralValidation_def check_executionTime_def check_memoryUsage_def
      check_logs_def check_deliverables_def check_backup_def investigation_without_root_cause_def
      empty_execution_def validateDeliverables_def deliverable_keys_def has_key_def is_present_def)

lemma investigation_example_loop:
  "criteria_loop (investigation_criteria investigation_without_root_cause clean_check_record)
     (\<lparr>totalWeight = 0, achievedWeight = 0, criticalFailures = 0\<rparr>, [])
   = (\<lparr>totalWeight = 100, achievedWeight = 75, criticalFailures = 1\<rparr>,
      [pass_mark @ (S ''An'' @ [0xE1] @ S ''lise de erros completa''), pass_mark @ (S ''Problema reproduzido''),
       fail_mark @ (S ''Causa raiz identificada''), pass_mark @ (S ''Solu'' @ [0xE7, 0xE3] @ S ''o proposta'')])"
  by (simp add: investigation_example_rubric criterion_step_def)

text \<open>
  C1. The investigation step of a bug-fix task whose execution found everything but the
  root cause: the criterion "Causa raiz identificada" is critical and evaluates false,
  the score is 75, and \<open>validate\<close> approves the step.
\<close>

theorem approved_with_critical_failure:
  "approved (fst (validate now empty_environment new_validator investigation_step
                    investigation_without_root_cause clean_check_record))
   \<and> qualityScore (fst (validate now empty_environment new_validator investigation_step
                    investigation_without_root_cause clean_check_record)) = 75
   \<and> list_ex (\<lambda>c. c_critical c \<and> c_check c = Inr False)
        (rubric investigation_step investigation_without_root_cause clean_check_record)"
proof -
  have score: "qualityScore (validate_by_type empty_environment investigation_step
      investigation_without_root_cause clean_check_record (initial_result now investigation_step))
    = 75"
    by (simp add: investigation_example_by_type evaluateCriteria_fields initial_result_def
        investigation_example_loop js_round_percent_def)
  have rs: "reasons (validate_by_type empty_environment investigation_step
      investigation_without_root_cause clean_check_record (initial_result now investigation_step))
    = [pass_mark @ (S ''An'' @ [0xE1] @ S ''lise de erros completa''), pass_mark @ (S ''Problema reproduzido''),
       fail_mark @ (S ''Causa raiz identificada''), pass_mark @ (S ''Solu'' @ [0xE7, 0xE3] @ S ''o proposta'')]"
    by (simp add: investigation_example_by_type evaluateCriteria_fields initial_result_def
        investigation_example_loop)
  have no_word: "\<not> list_ex (\<lambda>r. js_includes r [0x274C] \<and> js_includes r (S ''CR'' @ [0xCD] @ S ''TICO''))
      [pass_mark @ (S ''An'' @ [0xE1] @ S ''lise de erros completa''), pass_mark @ (S ''Problema reproduzido''),
       fail_mark @ (S ''Causa raiz identificada''), pass_mark @ (S ''Solu'' @ [0xE7, 0xE3] @ S ''o proposta'')]"
    by (simp add: pass_mark_def fail_mark_def S_def)
  have critical: "list_ex (\<lambda>c. c_critical c \<and> c_check c = Inr False)
      (rubric investigation_step investigation_without_root_cause clean_check_record)"
    by (simp add: rubric_def example_step_facts investigation_example_rubric)
  from score rs no_word critical show ?thesis
    by (simp add: validate_approved validate_qualityScore investigation_example_general)
qed


subsection \<open>The readiness of a fix step\<close>

lemma criteria_loop_reasons_all:
  assumes "list_all P rs"
    and "list_all (\<lambda>c. case c_check c of
                          Inr b \<Rightarrow> P (pass_mark @ c_name c) \<and> P (fail_mark @ c_name c)
                        | Inl m \<Rightarrow> False) cs"
  shows "list_all P (snd (criteria_loop cs (t, rs)))"
  using assms
proof (induction cs arbitrary: t rs)
  case Nil
  then show ?case by simp
next
  case (Cons c cs)
  obtain t1 rs1 where step: "criterion_step c (t, rs) = (t1, rs1)"
    by (cases "criterion_step c (t, rs)")
  from Cons.prems have "list_all P rs1"
    using step by (auto simp: criterion_step_def Let_def split: sum.splits if_splits)
  moreover from Cons.prems have "list_all (\<lambda>c. case c_check c of
      Inr b \<Rightarrow> P (pass_mark @ c_name c) \<and> P (fail_mark @ c_name c) | Inl m \<Rightarrow> False) cs"
    by simp
  ultimately have "list_all P (snd (criteria_loop cs (t1, rs1)))"
    by (rule Cons.IH)
  with step show ?case by simp
qed

lemma general_checks_reasons_all:
  assumes "list_all P (reasons vr)"
    and "P (warn_mark @ (S ''Tempo de execu'' @ [0xE7, 0xE3] @ S ''o muito longo''))"
    and "P (warn_mark @ (S ''Alto uso de mem'' @ [0xF3] @ S ''ria''))"
    and "P (warn_mark @ (S ''Logs de erro encontrados''))"
    and "P (fail_mark @ (S ''Deliverables inv'' @ [0xE1] @ S ''lidos''))"
    and "P (warn_mark @ (S ''Backup n'' @ [0xE3] @ S ''o foi criado antes das modifica'' @ [0xE7, 0xF5] @ S ''es''))"
  shows "list_all P (reasons (performGeneralValidation s e t vr))"
proof -
  have 1: "list_all P (reasons (check_executionTime e vr))"
    using assms(1,2)
    by (simp add: check_executionTime_def push_reason_def push_recommendation_def
        split: option.splits)
  have 2: "list_all P (reasons (check_memoryUsage e (check_executionTime e vr)))"
    using 1 assms(3)
    by (simp add: check_memoryUsage_def push_reason_def push_recommendation_def
        split: option.splits)
  have 3: "list_all P (reasons (check_logs e (check_memoryUsage e (check_executionTime e vr))))"
    using 2 assms(4)
    by (simp add: check_logs_def push_reason_def push_recommendation_def split: option.splits)
  have 4: "list_all P (reasons (check_deliverables e
      (check_logs e (check_memoryUsage e (check_executionTime e vr)))))"
    using 3 assms(5)
    by (simp add: check_deliverables_def push_reason_def split: option.splits)
  show ?thesis
    using 4 assms(6)
    by (simp add: performGeneralValidation_def check_backup_def push_reason_def
        push_recommendation_def)
qed

lemma fix_reasons_never_mention:
  "list_all (\<lambda>r. \<not> js_includes r (S ''problema original''))
     (reasons (validateFix env s e t (initial_result now s)))"
proof -
  have criteria: "list_all (\<lambda>c. case c_check c of
        Inr b \<Rightarrow> \<not> js_includes (pass_mark @ c_name c) (S ''problema original'')
                 \<and> \<not> js_includes (fail_mark @ c_name c) (S ''problema original'')
      | Inl m \<Rightarrow> False) (fix_criteria e t)"
    by (simp add: fix_criteria_def pass_mark_def fail_mark_def S_def)
  have "list_all (\<lambda>r. \<not> js_includes r (S ''problema original''))
      (snd (criteria_loop (fix_criteria e t)
              (\<lparr>totalWeight = 0, achievedWeight = 0, criticalFailures = 0\<rparr>, [])))"
    by (rule criteria_loop_reasons_all [OF _ criteria]) simp
  then have evaluated: "list_all (\<lambda>r. \<not> js_includes r (S ''problema original''))
      (reasons (evaluateCriteria (fix_criteria e t) (initial_result now s)))"
    by (simp add: evaluateCriteria_fields initial_result_def)
  have pushed: "\<not> js_includes (S ''Problema original ainda n'' @ [0xE3] @ S ''o foi resolvido'') (S ''problema original'')"
    by (simp add: S_def)
  from evaluated pushed show ?thesis
    by (simp add: validateFix_def Let_def push_reason_def split: option.splits)
qed

text \<open>
  C6. For a step of type \<open>fix\<close>, \<open>nextStepApproved\<close> is false whatever the execution and
  the checks were: the reason of the criterion that passed reads "Problema original
  resolvido", with a capital letter, and \<open>checkNextStepReadiness\<close> looks for "problema
  original".
\<close>

theorem fix_step_never_ready:
  assumes "step_type s = (S ''fix'')"
  shows "\<not> nextStepApproved (fst (validate now env v s e t))"
proof -
  have "list_all (\<lambda>r. \<not> js_includes r (S ''problema original''))
      (reasons (performGeneralValidation s e t (validateFix env s e t (initial_result now s))))"
    by (rule general_checks_reasons_all [OF fix_reasons_never_mention])
       (simp_all add: warn_mark_def fail_mark_def S_def)
  then have "\<not> list_ex (\<lambda>r. js_includes r [0x2705] \<and> js_includes r (S ''problema original''))
      (reasons (performGeneralValidation s e t (validateFix env s e t (initial_result now s))))"
    by (induction "reasons (performGeneralValidation s e t
          (validateFix env s e t (initial_result now s)))") (auto simp: list_ex_iff list_all_iff)
  with assms show ?thesis
    by (simp add: validate_def Let_def checkNextStepReadiness_next validate_by_type_def)
qed

text \<open>
  The witness is the fix step of a bug-fix task with an execution for which every
  criterion of the rubric passes, "Problema original resolvido" included: the step is
  approved with score 100, and \<open>nextStepApproved\<close> is false.
\<close>

theorem fix_step_never_ready_witness:
  "step_type fix_step = (S ''fix'')
   \<and> list_all (\<lambda>c. c_check c = Inr True) (rubric fix_step successful_fix clean_check_record)
   \<and> approved (fst (validate (S ''2025-01-01T00:00:00.000Z'') empty_environment new_validator
                       fix_step successful_fix clean_check_record))
   \<and> qualityScore (fst (validate (S ''2025-01-01T00:00:00.000Z'') empty_environment new_validator
                       fix_step successful_fix clean_check_record)) = 100
   \<and> \<not> nextStepApproved (fst (validate (S ''2025-01-01T00:00:00.000Z'') empty_environment
                       new_validator fix_step successful_fix clean_check_record))"
proof -
  have rubric: "fix_criteria successful_fix clean_check_record =
    [\<lparr>c_name = (S ''Corre'' @ [0xE7, 0xE3] @ S ''o aplicada''), c_check = Inr True, c_weight = 40, c_critical = True\<rparr>,
     \<lparr>c_name = (S ''Testes passando''), c_check = Inr True, c_weight = 30, c_critical = True\<rparr>,
     \<lparr>c_name = (S ''Problema original resolvido''), c_check = Inr True, c_weight = 20,
      c_critical = True\<rparr>,
     \<lparr>c_name = (S ''Sem efeitos colaterais''), c_check = Inr True, c_weight = 10,
      c_critical = False\<rparr>]"
    by (simp add: fix_criteria_def successful_fix_def empty_execution_def clean_check_record_def
        empty_check_record_def)
  have by_type: "validate_by_type empty_environment fix_step successful_fix clean_check_record vr
      = evaluateCriteria (fix_criteria successful_fix clean_check_record) vr" for vr
    by (simp add: validate_by_type_def example_step_facts validateFix_def Let_def)
  have general: "performGeneralValidation fix_step successful_fix clean_check_record vr = vr" for vr
    by (simp add: performGeneralValidation_def check_executionTime_def check_memoryUsage_def
        check_logs_def check_deliverables_def check_backup_def successful_fix_def
        empty_execution_def)
  have loop: "criteria_loop (fix_criteria successful_fix clean_check_record)
       (\<lparr>totalWeight = 0, achievedWeight = 0, criticalFailures = 0\<rparr>, [])
     = (\<lparr>totalWeight = 100, achievedWeight = 100, criticalFailures = 0\<rparr>,
        [pass_mark @ (S ''Corre'' @ [0xE7, 0xE3] @ S ''o aplicada''), pass_mark @ (S ''Testes passando''),
         pass_mark @ (S ''Problema original resolvido''), pass_mark @ (S ''Sem efeitos colaterais'')])"
    by (simp add: rubric criterion_step_def)
  have no_word: "\<not> list_ex (\<lambda>r. js_includes r [0x274C] \<and> js_includes r (S ''CR'' @ [0xCD] @ S ''TICO''))
        [pass_mark @ (S ''Corre'' @ [0xE7, 0xE3] @ S ''o aplicada''), pass_mark @ (S ''Testes passando''),
         pass_mark @ (S ''Problema original resolvido''), pass_mark @ (S ''Sem efeitos colaterais'')]"
    by (simp add: pass_mark_def S_def)
  have all_pass: "list_all (\<lambda>c. c_check c = Inr True)
      (rubric fix_step successful_fix clean_check_record)"
    by (simp add: rubric_def example_step_facts rubric)
  have score: "qualityScore (fst (validate (S ''2025-01-01T00:00:00.000Z'') empty_environment
      new_validator fix_step successful_fix clean_check_record)) = 100"
    by (simp add: validate_qualityScore by_type evaluateCriteria_fields initial_result_def loop
        js_round_percent_def)
  have ok: "approved (fst (validate (S ''2025-01-01T00:00:00.000Z'') empty_environment
      new_validator fix_step successful_fix clean_check_record))"
    using no_word
    by (simp add: validate_approved by_type general evaluateCriteria_fields initial_result_def
        loop js_round_percent_def)
  from fix_step_never_ready [OF example_step_facts(2)] all_pass score ok example_step_facts(2)
  show ?thesis by blast
qed


subsection \<open>The clock, the outside world and the history\<close>

text \<open>Every stage of \<open>validate\<close> carries the timestamp along and never reads it.\<close>

lemma push_timestamp:
  "push_reason r (vr\<lparr>timestamp := x\<rparr>) = (push_reason r vr)\<lparr>timestamp := x\<rparr>"
  "push_recommendation r (vr\<lparr>timestamp := x\<rparr>) = (push_recommendation r vr)\<lparr>timestamp := x\<rparr>"
  "set_metric k m (vr\<lparr>timestamp := x\<rparr>) = (set_metric k m vr)\<lparr>timestamp := x\<rparr>"
  by (simp_all add: push_reason_def push_recommendation_def set_metric_def)

lemma evaluateCriteria_timestamp:
  "evaluateCriteria cs (vr\<lparr>timestamp := x\<rparr>) = (evaluateCriteria cs vr)\<lparr>timestamp := x\<rparr>"
  by (cases vr) (simp add: evaluateCriteria_def Let_def split: prod.splits)

lemma createdFiles_loop_timestamp:
  "createdFiles_loop env fs (n, vr\<lparr>timestamp := x\<rparr>)
     = map_prod id (\<lambda>r. r\<lparr>timestamp := x\<rparr>) (createdFiles_loop env fs (n, vr))"
  by (induction fs arbitrary: n vr) (simp_all add: push_timestamp split: option.splits)

lemma requirements_loop_timestamp:
  "requirements_loop e rs (n, vr\<lparr>timestamp := x\<rparr>)
     = map_prod id (\<lambda>r. r\<lparr>timestamp := x\<rparr>) (requirements_loop e rs (n, vr))"
  by (induction rs arbitrary: n vr) (simp_all add: push_timestamp)

lemma documentation_loop_timestamp:
  "documentation_loop env fs (vr\<lparr>timestamp := x\<rparr>)
     = (documentation_loop env fs vr)\<lparr>timestamp := x\<rparr>"
  by (induction fs arbitrary: vr) (simp_all add: push_timestamp Let_def split: option.splits)

lemma validateCreatedFiles_timestamp:
  "validateCreatedFiles env fs (vr\<lparr>timestamp := x\<rparr>)
     = (validateCreatedFiles env fs vr)\<lparr>timestamp := x\<rparr>"
  by (cases "createdFiles_loop env fs (0, vr)")
     (simp add: validateCreatedFiles_def createdFiles_loop_timestamp push_timestamp)

lemma verifyRequirementsFulfillment_timestamp:
  "verifyRequirementsFulfillment s e (vr\<lparr>timestamp := x\<rparr>)
     = (verifyRequirementsFulfillment s e vr)\<lparr>timestamp := x\<rparr>"
  by (cases "requirements_loop e (step_requirements s) (0, vr)")
     (simp add: verifyRequirementsFulfillment_def requirements_loop_timestamp push_timestamp
        Let_def)

lemma validateAnalysis_timestamp:
  "validateAnalysis env s e t (vr\<lparr>timestamp := x\<rparr>)
     = (validateAnalysis env s e t vr)\<lparr>timestamp := x\<rparr>"
  by (simp add: validateAnalysis_def Let_def evaluateCriteria_timestamp push_timestamp)

lemma validateImplementation_timestamp:
  "validateImplementation env s e t (vr\<lparr>timestamp := x\<rparr>)
     = (validateImplementation env s e t vr)\<lparr>timestamp := x\<rparr>"
  by (simp add: validateImplementation_def evaluateCriteria_timestamp
      validateCreatedFiles_timestamp verifyRequirementsFulfillment_timestamp)

lemma validateInvestigation_timestamp:
  "validateInvestigation env s e t (vr\<lparr>timestamp := x\<rparr>)
     = (validateInvestigation env s e t vr)\<lparr>timestamp := x\<rparr>"
  by (simp add: validateInvestigation_def Let_def evaluateCriteria_timestamp push_timestamp
      split: option.splits field.splits)

lemma validateFix_timestamp:
  "validateFix env s e t (vr\<lparr>timestamp := x\<rparr>)
     = (validateFix env s e t vr)\<lparr>timestamp := x\<rparr>"
  by (simp add: validateFix_def Let_def evaluateCriteria_timestamp push_timestamp
      split: option.splits)

lemma validateTesting_timestamp:
  "validateTesting env s e t (vr\<lparr>timestamp := x\<rparr>)
     = (validateTesting env s e t vr)\<lparr>timestamp := x\<rparr>"
  by (simp add: validateTesting_def Let_def evaluateCriteria_timestamp push_timestamp
      split: option.splits)

lemma validateDocumentation_timestamp:
  "validateDocumentation env s e t (vr\<lparr>timestamp := x\<rparr>)
     = (validateDocumentation env s e t vr)\<lparr>timestamp := x\<rparr>"
  by (simp add: validateDocumentation_def validateDocumentationQuality_def
      evaluateCriteria_timestamp documentation_loop_timestamp split: option.splits)

lemma validate_by_type_timestamp:
  "validate_by_type env s e t (vr\<lparr>timestamp := x\<rparr>)
     = (validate_by_type env s e t vr)\<lparr>timestamp := x\<rparr>"
  by (simp add: validate_by_type_def validateAnalysis_timestamp validateImplementation_timestamp
      validateInvestigation_timestamp validateFix_timestamp validateTesting_timestamp
      validateDocumentation_timestamp validateRefactor_def validateValidation_def
      validateGeneral_def evaluateCriteria_timestamp)

lemma check_timestamp:
  "check_executionTime e (vr\<lparr>timestamp := x\<rparr>) = (check_executionTime e vr)\<lparr>timestamp := x\<rparr>"
  "check_memoryUsage e (vr\<lparr>timestamp := x\<rparr>) = (check_memoryUsage e vr)\<lparr>timestamp := x\<rparr>"
  "check_logs e (vr\<lparr>timestamp := x\<rparr>) = (check_logs e vr)\<lparr>timestamp := x\<rparr>"
  "check_deliverables e (vr\<lparr>timestamp := x\<rparr>) = (check_deliverables e vr)\<lparr>timestamp := x\<rparr>"
  "check_backup e (vr\<lparr>timestamp := x\<rparr>) = (check_backup e vr)\<lparr>timestamp := x\<rparr>"
  by (simp_all add: check_executionTime_def check_memoryUsage_def check_logs_def
      check_deliverables_def check_backup_def push_timestamp split: option.splits)

lemma performGeneralValidation_timestamp:
  "performGeneralValidation s e t (vr\<lparr>timestamp := x\<rparr>)
     = (performGeneralValidation s e t vr)\<lparr>timestamp := x\<rparr>"
  by (simp add: performGeneralValidation_def check_timestamp)

lemma approval_stages_timestamp:
  "assign_approval a b c (vr\<lparr>timestamp := x\<rparr>) = (assign_approval a b c vr)\<lparr>timestamp := x\<rparr>"
  "final_confidence a (vr\<lparr>timestamp := x\<rparr>) = (final_confidence a vr)\<lparr>timestamp := x\<rparr>"
  "score_recommendations (vr\<lparr>timestamp := x\<rparr>) = (score_recommendations vr)\<lparr>timestamp := x\<rparr>"
  by (simp_all add: assign_approval_def final_confidence_def score_recommendations_def Let_def
      push_recommendation_def)

lemma calculateFinalApproval_timestamp:
  "calculateFinalApproval (vr\<lparr>timestamp := x\<rparr>) = (calculateFinalApproval vr)\<lparr>timestamp := x\<rparr>"
  by (simp add: calculateFinalApproval_def Let_def approval_stages_timestamp)

lemma checkNextStepReadiness_timestamp:
  "checkNextStepReadiness s (vr\<lparr>timestamp := x\<rparr>)
     = (checkNextStepReadiness s vr)\<lparr>timestamp := x\<rparr>"
  by (cases vr) (simp add: checkNextStepReadiness_def Let_def push_recommendation_def)

lemma validate_timestamp: "timestamp (fst (validate now env v s e t)) = now"
proof -
  have "initial_result now s = (initial_result [] s)\<lparr>timestamp := now\<rparr>"
    by (simp add: initial_result_def)
  then show ?thesis
    by (simp add: validate_def Let_def validate_by_type_timestamp)
qed

text \<open>
  C9, as the claim states it, fails. The result carries the time of the call, so two runs
  on the same triple at different times differ; and \<open>validate\<close> asks the outside world
  (here, whether a package reported missing is installed by now), so two runs at the same
  time on the same triple differ when the world has changed in between.
\<close>

theorem validate_twice_counterexample:
  "fst (validate (S ''2025-01-01T00:00:00.000Z'') empty_environment new_validator fix_step
          successful_fix clean_check_record)
     \<noteq> fst (validate (S ''2025-01-01T00:00:05.000Z'') empty_environment new_validator fix_step
          successful_fix clean_check_record)
   \<and> fst (validate (S ''2025-01-01T00:00:00.000Z'') empty_environment new_validator analysis_step
          analysis_with_missing_dependency clean_check_record)
     \<noteq> fst (validate (S ''2025-01-01T00:00:00.000Z'') installed_environment new_validator
          analysis_step analysis_with_missing_dependency clean_check_record)"
proof -
  have "timestamp (fst (validate (S ''2025-01-01T00:00:00.000Z'') empty_environment new_validator
          fix_step successful_fix clean_check_record))
      \<noteq> timestamp (fst (validate (S ''2025-01-01T00:00:05.000Z'') empty_environment new_validator
          fix_step successful_fix clean_check_record))"
    by (simp add: validate_timestamp)
  then have clock: "fst (validate (S ''2025-01-01T00:00:00.000Z'') empty_environment new_validator
          fix_step successful_fix clean_check_record)
     \<noteq> fst (validate (S ''2025-01-01T00:00:05.000Z'') empty_environment new_validator fix_step
          successful_fix clean_check_record)"
    by metis
  have kind: "step_type analysis_step = (S ''analysis'')"
    by (simp add: analysis_step_def planned_step_def general_steps_def createTaskSteps_def
        Let_def step.extend_def)
  have missing: "missing_dependencies analysis_with_missing_dependency = [(S ''express'')]"
    by (simp add: missing_dependencies_def analysis_with_missing_dependency_def)
  have general: "performGeneralValidation analysis_step analysis_with_missing_dependency
      clean_check_record vr = vr" for vr
    by (simp add: performGeneralValidation_def check_executionTime_def check_memoryUsage_def
        check_logs_def check_deliverables_def check_backup_def
        analysis_with_missing_dependency_def empty_execution_def validateDeliverables_def
        deliverable_keys_def has_key_def is_present_def)
  have "reasons (fst (validate (S ''2025-01-01T00:00:00.000Z'') empty_environment new_validator
          analysis_step analysis_with_missing_dependency clean_check_record))
     \<noteq> reasons (fst (validate (S ''2025-01-01T00:00:00.000Z'') installed_environment new_validator
          analysis_step analysis_with_missing_dependency clean_check_record))"
    by (simp add: validate_reasons general validate_by_type_def kind validateAnalysis_def
        Let_def missing verifyDependenciesInstalled_def empty_environment_def
        installed_environment_def push_reason_def push_recommendation_def)
  then have world: "fst (validate (S ''2025-01-01T00:00:00.000Z'') empty_environment new_validator
          analysis_step analysis_with_missing_dependency clean_check_record)
     \<noteq> fst (validate (S ''2025-01-01T00:00:00.000Z'') installed_environment new_validator
          analysis_step analysis_with_missing_dependency clean_check_record)"
    by metis
  from clock world show ?thesis by blast
qed

text \<open>
  C9, amended. Two runs on the same step, execution record and check record, in the same
  outside world, give results that agree in every field but the timestamp, whatever the
  two clocks and the two histories are; and a run changes the validator only by
  appending its result to the history.
\<close>

theorem validate_same_up_to_timestamp:
  "fst (validate now1 env v1 s e t) = (fst (validate now2 env v2 s e t))\<lparr>timestamp := now1\<rparr>
   \<and> snd (validate now1 env v1 s e t)
       = v1\<lparr>validationHistory := validationHistory v1 @ [fst (validate now1 env v1 s e t)]\<rparr>"
proof -
  have "initial_result now1 s = (initial_result now2 s)\<lparr>timestamp := now1\<rparr>"
    by (simp add: initial_result_def)
  then show ?thesis
    by (simp add: validate_def Let_def validate_by_type_timestamp
        performGeneralValidation_timestamp calculateFinalApproval_timestamp
        checkNextStepReadiness_timestamp)
qed

end
